theory Spec2Isabelle
  imports Main
begin

section \<open>Strings and paths\<close>

text \<open>
  JavaScript strings are modelled as \<open>string\<close>. A path is the list of its segments, read
  from the root: the model works with normalised absolute paths, so \<open>path.join\<close> on a
  normalised directory and slash-free names only has to treat the empty name, \<open>.\<close> and
  \<open>..\<close> specially, as Node's normalisation does.
\<close>

type_synonym path = "string list"

definition endsWith :: "string \<Rightarrow> string \<Rightarrow> bool" where
  "endsWith s suf = (length suf \<le> length s \<and> drop (length s - length suf) s = suf)"

fun join :: "path \<Rightarrow> string list \<Rightarrow> path" where
  "join p [] = p"
| "join p (s # ss) =
     (if s = [] \<or> s = ''.'' then join p ss
      else if s = ''..'' then join (butlast p) ss
      else join (p @ [s]) ss)"

fun firstSome :: "('a \<Rightarrow> 'b option) \<Rightarrow> 'a list \<Rightarrow> 'b option" where
  "firstSome f [] = None"
| "firstSome f (x # xs) = (case f x of Some y \<Rightarrow> Some y | None \<Rightarrow> firstSome f xs)"

section \<open>The file system as a tree\<close>

text \<open>
  A directory lists its entries in the order \<open>readdir\<close> returns them. \<open>Other\<close> is an entry
  that exists but is neither a regular file nor a directory for \<open>Dirent\<close> (a socket, a
  device); symbolic links are not modelled. Directory names are distinct in a real file system; directories
  are readable.
\<close>

datatype node = File string | Other | Dir "(string \<times> node) list"

fun isDirectory :: "node \<Rightarrow> bool" where
  "isDirectory (Dir _) = True"
| "isDirectory _ = False"

fun isFile :: "node \<Rightarrow> bool" where
  "isFile (File _) = True"
| "isFile _ = False"

fun lookup :: "node \<Rightarrow> path \<Rightarrow> node option" where
  "lookup n [] = Some n"
| "lookup (Dir es) (s # p) = (case map_of es s of None \<Rightarrow> None | Some c \<Rightarrow> lookup c p)"
| "lookup _ (s # p) = None"

definition existsSync :: "node \<Rightarrow> path \<Rightarrow> bool" where
  "existsSync n p = (lookup n p \<noteq> None)"

section \<open>findFirefoxBinary (firefox-downloader.mjs, lines 128-221)\<close>

text \<open>
  The locator is called with a directory path; the model passes the path together with
  the node found there, so that \<open>existsSync (join extractDir names)\<close> of the source is
  \<open>existsSync n names\<close> on that node, and the recursive call on
  \<open>join extractDir entry.name\<close> receives the entry's own node. The function only reads
  the file system. Its \<open>console.warn\<close> calls are not part of the model.
\<close>

definition executableNames :: "string list" where
  "executableNames =
     [''firefox'', ''firefox-bin'', ''Firefox Nightly'', ''Firefox Developer Edition'', ''Firefox'']"

text \<open>Lines 142-174, the body of the loop over the \<open>.app\<close> bundles.\<close>

definition checkAppBundle :: "path \<Rightarrow> string \<times> node \<Rightarrow> path option" where
  "checkAppBundle extractDir appBundle =
     (let macOSDir = join extractDir [fst appBundle, ''Contents'', ''MacOS''] in
      case lookup (snd appBundle) [''Contents'', ''MacOS''] of
        None \<Rightarrow> None
      | Some m \<Rightarrow>
          (case find (\<lambda>execName. existsSync m [execName]) executableNames of
             Some execName \<Rightarrow> Some (join macOSDir [execName])
           | None \<Rightarrow>
               (case m of
                  Dir macOSEntries \<Rightarrow>
                    (case find (\<lambda>entry. isFile (snd entry)) macOSEntries of
                       Some entry \<Rightarrow> Some (join macOSDir [fst entry])
                     | None \<Rightarrow> None)
                | _ \<Rightarrow> None)))"

text \<open>Lines 134-175: the bundles of a directory listing, checked in order.\<close>

definition searchAppBundles :: "path \<Rightarrow> (string \<times> node) list \<Rightarrow> path option" where
  "searchAppBundles extractDir entries =
     firstSome (checkAppBundle extractDir)
       (filter (\<lambda>entry. isDirectory (snd entry) \<and> endsWith (fst entry) ''.app'') entries)"

text \<open>Lines 192-203.\<close>

definition linuxPaths :: "string list list" where
  "linuxPaths = [[''firefox'', ''firefox''], [''firefox'', ''firefox-bin'']]"

definition checkLinuxPaths :: "path \<Rightarrow> node \<Rightarrow> path option" where
  "checkLinuxPaths extractDir n =
     (case find (\<lambda>names. existsSync n names) linuxPaths of
        Some names \<Rightarrow> Some (join extractDir names)
      | None \<Rightarrow> None)"

text \<open>
  \<open>searchNested\<close> is the loop of lines 178-185, \<open>searchFallback\<close> the loop of lines
  208-215. On a node that is not a directory both \<open>readdir\<close> calls throw and are caught,
  and no path below it exists: the result is \<open>null\<close>.
\<close>

fun findFirefoxBinary :: "string \<Rightarrow> path \<Rightarrow> node \<Rightarrow> path option"
  and searchNested :: "string \<Rightarrow> path \<Rightarrow> (string \<times> node) list \<Rightarrow> path option"
  and searchFallback :: "string \<Rightarrow> path \<Rightarrow> (string \<times> node) list \<Rightarrow> path option"
where
  "findFirefoxBinary platform extractDir (Dir entries) =
     (case (if platform = ''darwin''
            then (case searchAppBundles extractDir entries of
                    Some execPath \<Rightarrow> Some execPath
                  | None \<Rightarrow> searchNested platform extractDir entries)
            else None) of
        Some found \<Rightarrow> Some found
      | None \<Rightarrow>
          (case (if platform = ''linux'' then checkLinuxPaths extractDir (Dir entries) else None) of
             Some p \<Rightarrow> Some p
           | None \<Rightarrow> searchFallback platform extractDir entries))"
| "findFirefoxBinary platform extractDir (File c) = None"
| "findFirefoxBinary platform extractDir Other = None"
| "searchNested platform extractDir [] = None"
| "searchNested platform extractDir (entry # rest) =
     (if isDirectory (snd entry) \<and> \<not> endsWith (fst entry) ''.app''
      then (case findFirefoxBinary platform (join extractDir [fst entry]) (snd entry) of
              Some found \<Rightarrow> Some found
            | None \<Rightarrow> searchNested platform extractDir rest)
      else searchNested platform extractDir rest)"
| "searchFallback platform extractDir [] = None"
| "searchFallback platform extractDir (entry # rest) =
     (if isDirectory (snd entry)
      then (case findFirefoxBinary platform (join extractDir [fst entry]) (snd entry) of
              Some found \<Rightarrow> Some found
            | None \<Rightarrow> searchFallback platform extractDir rest)
      else searchFallback platform extractDir rest)"

text \<open>
  Line 92: the locator applied to the directory \<open>extractDir\<close> of a file system. When
  nothing exists at \<open>extractDir\<close> every \<open>readdir\<close> throws and every \<open>existsSync\<close> is false.
\<close>

definition findFirefoxBinaryAt :: "string \<Rightarrow> node \<Rightarrow> path \<Rightarrow> path option" where
  "findFirefoxBinaryAt platform root extractDir =
     (case lookup root extractDir of
        None \<Rightarrow> None
      | Some n \<Rightarrow> findFirefoxBinary platform extractDir n)"

subsection \<open>Vocabulary for the properties of the locator\<close>

text \<open>
  The executable rules a single directory is checked against: the bundle rules on
  \<open>darwin\<close> (lines 137-175), the two fixed paths on \<open>linux\<close> (lines 192-203).
\<close>

definition matchRules :: "string \<Rightarrow> path \<Rightarrow> node \<Rightarrow> path option" where
  "matchRules platform d n =
     (case n of
        Dir entries \<Rightarrow>
          (case (if platform = ''darwin'' then searchAppBundles d entries else None) of
             Some p \<Rightarrow> Some p
           | None \<Rightarrow> (if platform = ''linux'' then checkLinuxPaths d n else None))
      | _ \<Rightarrow> None)"

text \<open>
  The platform-specific part of \<open>findFirefoxBinary\<close>: the whole \<open>darwin\<close> block of lines
  132-189 (with its own descent into the directories that are not bundles) and the
  \<open>linux\<close> block of lines 192-203.
\<close>

definition platformSpecific :: "string \<Rightarrow> path \<Rightarrow> node \<Rightarrow> path option" where
  "platformSpecific platform extractDir n =
     (case n of
        Dir entries \<Rightarrow>
          (case (if platform = ''darwin''
                 then (case searchAppBundles extractDir entries of
                         Some execPath \<Rightarrow> Some execPath
                       | None \<Rightarrow> searchNested platform extractDir entries)
                 else None) of
             Some found \<Rightarrow> Some found
           | None \<Rightarrow> (if platform = ''linux'' then checkLinuxPaths extractDir n else None))
      | _ \<Rightarrow> None)"

text \<open>The entries the fallback loop of lines 208-215 descends into.\<close>

definition subdirectories :: "(string \<times> node) list \<Rightarrow> (string \<times> node) list" where
  "subdirectories entries = filter (\<lambda>entry. isDirectory (snd entry)) entries"

text \<open>Every directory of a tree, with its path, the root first.\<close>

fun allDirs :: "path \<Rightarrow> node \<Rightarrow> (path \<times> node) list"
  and allDirsList :: "path \<Rightarrow> (string \<times> node) list \<Rightarrow> (path \<times> node) list"
where
  "allDirs d (Dir entries) = (d, Dir entries) # allDirsList d entries"
| "allDirs d (File c) = []"
| "allDirs d Other = []"
| "allDirsList d [] = []"
| "allDirsList d (entry # rest) = allDirs (join d [fst entry]) (snd entry) @ allDirsList d rest"

section \<open>More strings\<close>

definition quote :: "string \<Rightarrow> string" where
  "quote s = CHR 0x22 # s @ [CHR 0x22]"

text \<open>\<open>String.prototype.split\<close> with a separator of one character.\<close>

fun consFirst :: "char \<Rightarrow> string list \<Rightarrow> string list" where
  "consFirst c [] = [[c]]"
| "consFirst c (x # xs) = (c # x) # xs"

fun splitStr :: "char \<Rightarrow> string \<Rightarrow> string list" where
  "splitStr sep [] = [[]]"
| "splitStr sep (c # cs) =
     (if c = sep then [] # splitStr sep cs else consFirst c (splitStr sep cs))"

text \<open>
  \<open>path.basename\<close> of Node on POSIX: trailing slashes are dropped, then the text after
  the last slash is returned.
\<close>

definition basename :: "string \<Rightarrow> string" where
  "basename p =
     rev (takeWhile (\<lambda>c. c \<noteq> CHR ''/'') (dropWhile (\<lambda>c. c = CHR ''/'') (rev p)))"

text \<open>Line 47.\<close>

definition archiveName :: "string \<Rightarrow> string" where
  "archiveName url = hd (splitStr (CHR ''?'') (basename url))"

text \<open>
  The name the specification gives the downloaded file: the query string is stripped from
  the URL, and the last path segment of what remains is taken.
\<close>

definition stripQuery :: "string \<Rightarrow> string" where
  "stripQuery url = takeWhile (\<lambda>c. c \<noteq> CHR ''?'') url"

definition lastPathSegment :: "string \<Rightarrow> string" where
  "lastPathSegment url = rev (takeWhile (\<lambda>c. c \<noteq> CHR ''/'') (rev (stripQuery url)))"

definition isSpace :: "char \<Rightarrow> bool" where
  "isSpace c = (c \<in> set [CHR '' '', CHR 0x09, CHR 0x0A, CHR 0x0B, CHR 0x0C, CHR 0x0D])"

definition isLineTerminator :: "char \<Rightarrow> bool" where
  "isLineTerminator c = (c = CHR 0x0A \<or> c = CHR 0x0D)"

definition trim :: "string \<Rightarrow> string" where
  "trim s = rev (dropWhile isSpace (rev (dropWhile isSpace s)))"

text \<open>
  Line 244, the regular expression \<open>/\/Volumes\/.+$/m\<close>: the first place where
  \<open>/Volumes/\<close> is followed by a character of the same line; the match runs to the end of
  that line.
\<close>

fun matchVolumes :: "string \<Rightarrow> string option" where
  "matchVolumes [] = None"
| "matchVolumes (c # cs) =
     (let s = c # cs; rest = drop 9 s in
      if take 9 s = ''/Volumes/'' \<and> rest \<noteq> [] \<and> \<not> isLineTerminator (hd rest)
      then Some (''/Volumes/'' @ takeWhile (\<lambda>x. \<not> isLineTerminator x) rest)
      else matchVolumes cs)"

text \<open>
  Line 290, the regular expression \<open>/Firefox\s+(\S+)/\<close>; the result is its group 1, which
  is never empty.
\<close>

fun matchFirefoxVersion :: "string \<Rightarrow> string option" where
  "matchFirefoxVersion [] = None"
| "matchFirefoxVersion (c # cs) =
     (let s = c # cs; rest = drop 7 s;
          token = takeWhile (\<lambda>x. \<not> isSpace x) (dropWhile isSpace rest) in
      if take 7 s = ''Firefox'' \<and> rest \<noteq> [] \<and> isSpace (hd rest) \<and> token \<noteq> []
      then Some token
      else matchFirefoxVersion cs)"

fun showNat :: "nat \<Rightarrow> string" where
  "showNat n =
     (if n < 10 then [char_of (48 + n)]
      else showNat (n div 10) @ [char_of (48 + n mod 10)])"

definition render :: "path \<Rightarrow> string" where
  "render p = (if p = [] then ''/'' else concat (map (\<lambda>s. ''/'' @ s) p))"

section \<open>The world: file system, collaborators and effects\<close>

text \<open>
  Errors are JavaScript \<open>Error\<close> objects, of which only the message matters here: a
  computation that may throw returns \<open>string + 'a\<close>, with \<open>Inl\<close> the message thrown.
  The messages of system errors are shortened to their codes.
\<close>

datatype json =
    JNull
  | JBool bool
  | JNumber int
  | JString string
  | JArray "json list"
  | JObject "(string \<times> json) list"

text \<open>Every call that acts on the outside world is recorded, in order.\<close>

datatype event =
    Log string
  | Warn string
  | HttpGet string
  | StreamTo path
  | Mkdir path
  | TarExtract path path
  | Exec string
  | Chmod path
  | WriteFile path string

record world =
  fs :: node
  trace :: "event list"

record response =
  ok :: bool
  status :: nat
  statusText :: string
  body :: string
  bodyError :: "string option"

text \<open>
  The collaborators that are not code of this repository are parameters: the platform
  string, the temporary directory, the MD5 digest in hexadecimal, \<open>fetch\<close> (\<open>Inl\<close> is a
  network failure), \<open>tar.extract\<close> (its error, if any, and the file system it leaves),
  \<open>exec\<close> of \<open>child_process\<close> (\<open>Inl\<close> the error message, \<open>Inr\<close> the standard output, and
  the file system it leaves), \<open>JSON.parse\<close> and \<open>JSON.stringify\<close>; and, for path strings
  handed to the operating system as they are, the working directory and the bound
  \<open>PATH_MAX\<close> on their length.
\<close>

record env =
  process_platform :: string
  tmpdir :: path
  process_cwd :: path
  pathMax :: nat
  md5hex :: "string \<Rightarrow> string"
  fetch :: "string \<Rightarrow> string + response"
  tar_extract :: "path \<Rightarrow> path \<Rightarrow> node \<Rightarrow> string option \<times> node"
  exec :: "string \<Rightarrow> node \<Rightarrow> (string + string) \<times> node"
  JSON_parse :: "string \<Rightarrow> string + json"
  JSON_stringify :: "json \<Rightarrow> string"

record options =
  cacheDir_opt :: "path option"
  forceDownload_opt :: "bool option"

definition emit :: "event \<Rightarrow> world \<Rightarrow> world" where
  "emit e w = w\<lparr>trace := trace w @ [e]\<rparr>"

subsection \<open>File system calls\<close>

fun updateEntry :: "string \<Rightarrow> node \<Rightarrow> (string \<times> node) list \<Rightarrow> (string \<times> node) list" where
  "updateEntry s c [] = [(s, c)]"
| "updateEntry s c (e # es) = (if fst e = s then (s, c) # es else e # updateEntry s c es)"

text \<open>\<open>mkdir\<close> with \<open>recursive: true\<close>.\<close>

fun mkdirp :: "node \<Rightarrow> path \<Rightarrow> string + node" where
  "mkdirp (Dir es) [] = Inr (Dir es)"
| "mkdirp (File c) [] = Inl ''EEXIST''"
| "mkdirp Other [] = Inl ''EEXIST''"
| "mkdirp (Dir es) (s # p) =
     (case map_of es s of
        None \<Rightarrow>
          (case mkdirp (Dir []) p of
             Inl m \<Rightarrow> Inl m
           | Inr c \<Rightarrow> Inr (Dir (es @ [(s, c)])))
      | Some c \<Rightarrow>
          (case mkdirp c p of
             Inl m \<Rightarrow> Inl m
           | Inr c' \<Rightarrow> Inr (Dir (updateEntry s c' es))))"
| "mkdirp (File c) (s # p) = Inl ''ENOTDIR''"
| "mkdirp Other (s # p) = Inl ''ENOTDIR''"

text \<open>Opening a file for writing, with truncation, and writing the whole content.\<close>

fun writeAt :: "node \<Rightarrow> path \<Rightarrow> string \<Rightarrow> string + node" where
  "writeAt (Dir es) [] content = Inl ''EISDIR''"
| "writeAt (File c) [] content = Inr (File content)"
| "writeAt Other [] content = Inl ''ENXIO''"
| "writeAt (Dir es) (s # p) content =
     (case map_of es s of
        None \<Rightarrow> (if p = [] then Inr (Dir (es @ [(s, File content)])) else Inl ''ENOENT'')
      | Some c \<Rightarrow>
          (case writeAt c p content of
             Inl m \<Rightarrow> Inl m
           | Inr c' \<Rightarrow> Inr (Dir (updateEntry s c' es))))"
| "writeAt (File c) (s # p) content = Inl ''ENOTDIR''"
| "writeAt Other (s # p) content = Inl ''ENOTDIR''"

definition readFileSync :: "node \<Rightarrow> path \<Rightarrow> string + string" where
  "readFileSync root p =
     (case lookup root p of
        None \<Rightarrow> Inl ''ENOENT''
      | Some (File c) \<Rightarrow> Inr c
      | Some Other \<Rightarrow> Inl ''ENXIO''
      | Some (Dir es) \<Rightarrow> Inl ''EISDIR'')"

definition mkdirSync :: "path \<Rightarrow> world \<Rightarrow> (string + unit) \<times> world" where
  "mkdirSync p w =
     (case mkdirp (fs w) p of
        Inl m \<Rightarrow> (Inl m, emit (Mkdir p) w)
      | Inr root \<Rightarrow> (Inr (), emit (Mkdir p) (w\<lparr>fs := root\<rparr>)))"

definition writeFileSync :: "path \<Rightarrow> string \<Rightarrow> world \<Rightarrow> (string + unit) \<times> world" where
  "writeFileSync p content w =
     (case writeAt (fs w) p content of
        Inl m \<Rightarrow> (Inl m, emit (WriteFile p content) w)
      | Inr root \<Rightarrow> (Inr (), emit (WriteFile p content) (w\<lparr>fs := root\<rparr>)))"

definition chmodSync :: "path \<Rightarrow> world \<Rightarrow> (string + unit) \<times> world" where
  "chmodSync p w = ((if existsSync (fs w) p then Inr () else Inl ''ENOENT''), emit (Chmod p) w)"

text \<open>Lines 23-25 and 64-66.\<close>

definition ensureDir :: "path \<Rightarrow> world \<Rightarrow> (string + unit) \<times> world" where
  "ensureDir p w = (if \<not> existsSync (fs w) p then mkdirSync p w else (Inr (), w))"

subsection \<open>Collaborator calls\<close>

definition execAsync :: "env \<Rightarrow> string \<Rightarrow> world \<Rightarrow> (string + string) \<times> world" where
  "execAsync e cmd w =
     (case exec e cmd (fs w) of
        (r, root) \<Rightarrow> (r, emit (Exec cmd) (w\<lparr>fs := root\<rparr>)))"

text \<open>Lines 72-75 and 77-80: \<open>tar.extract\<close> with \<open>file\<close> and \<open>cwd\<close>.\<close>

definition tarExtract :: "env \<Rightarrow> path \<Rightarrow> path \<Rightarrow> world \<Rightarrow> (string + unit) \<times> world" where
  "tarExtract e file cwd w =
     (case tar_extract e file cwd (fs w) of
        (r, root) \<Rightarrow>
          ((case r of Some m \<Rightarrow> Inl m | None \<Rightarrow> Inr ()),
           emit (TarExtract file cwd) (w\<lparr>fs := root\<rparr>)))"

text \<open>
  Line 56: the body is streamed to a file opened for writing. When the stream breaks,
  what arrived stays in the file and the error is thrown.
\<close>

definition pipeline :: "response \<Rightarrow> path \<Rightarrow> world \<Rightarrow> (string + unit) \<times> world" where
  "pipeline r p w =
     (case writeAt (fs w) p (body r) of
        Inl m \<Rightarrow> (Inl m, emit (StreamTo p) w)
      | Inr root \<Rightarrow>
          ((case bodyError r of Some m \<Rightarrow> Inl m | None \<Rightarrow> Inr ()),
           emit (StreamTo p) (w\<lparr>fs := root\<rparr>)))"

text \<open>
  \<open>cached.binaryPath\<close> on a parsed value: reading a property of \<open>null\<close> throws a
  \<open>TypeError\<close>; a value without the property gives \<open>undefined\<close> (\<open>None\<close>).
\<close>

fun getBinaryPath :: "json \<Rightarrow> string + json option" where
  "getBinaryPath JNull =
     Inl (''Cannot read properties of null (reading '' @ [CHR 0x27] @ ''binaryPath''
            @ [CHR 0x27] @ '')'')"
| "getBinaryPath (JObject kvs) = Inr (map_of kvs ''binaryPath'')"
| "getBinaryPath _ = Inr None"

text \<open>
  A path string that the program did not build itself (line 35 reads one from the cache
  file) is resolved by the operating system, component by component: \<open>walk\<close> keeps the
  directory reached and the directories above it. An empty component (a doubled or a
  trailing slash) and \<open>.\<close> stay where they are, and \<open>..\<close> goes up, each only from a
  directory; a name is looked up, only in a directory. So \<open>missing/../x\<close> and
  \<open>file/\<close> resolve to nothing, whatever their normal form is.
\<close>

fun walk :: "node list \<Rightarrow> string list \<Rightarrow> node list option" where
  "walk st [] = Some st"
| "walk [] (s # ss) = None"
| "walk (Dir es # up) (s # ss) =
     (if s = [] \<or> s = ''.'' then walk (Dir es # up) ss
      else if s = ''..'' then walk (if up = [] then [Dir es] else up) ss
      else (case map_of es s of
              None \<Rightarrow> None
            | Some c \<Rightarrow> walk (c # Dir es # up) ss))"
| "walk (File c # up) (s # ss) = None"
| "walk (Other # up) (s # ss) = None"

text \<open>
  \<open>existsSync\<close> on a string: false on the empty string, on a string with a null byte and
  on one that is too long; an absolute path is resolved from the root, a relative one
  from the working directory.
\<close>

definition existsSyncRaw :: "env \<Rightarrow> node \<Rightarrow> string \<Rightarrow> bool" where
  "existsSyncRaw e root s =
     (s \<noteq> [] \<and> CHR 0x00 \<notin> set s \<and> length s < pathMax e \<and>
      (case (if hd s = CHR ''/'' then Some [root] else walk [root] (process_cwd e)) of
         None \<Rightarrow> False
       | Some st \<Rightarrow> walk st (splitStr (CHR ''/'') s) \<noteq> None))"

text \<open>\<open>existsSync\<close> on a JavaScript value: false on anything that is not a string.\<close>

fun existsSyncValue :: "env \<Rightarrow> node \<Rightarrow> json option \<Rightarrow> bool" where
  "existsSyncValue e root (Some (JString s)) = existsSyncRaw e root s"
| "existsSyncValue e root _ = False"

fun toText :: "json option \<Rightarrow> string" where
  "toText (Some (JString s)) = s"
| "toText _ = ''undefined''"

section \<open>extractDmg (lines 231-275)\<close>

definition attachCommand :: "path \<Rightarrow> string" where
  "attachCommand dmgPath = ''hdiutil attach '' @ quote (render dmgPath) @ '' -nobrowse -noautoopen''"

definition detachCommand :: "string \<Rightarrow> string" where
  "detachCommand mountPoint = ''hdiutil detach '' @ quote mountPoint"

text \<open>Lines 253-264, the body of the \<open>try\<close>.\<close>

definition copyAppBundle :: "env \<Rightarrow> string \<Rightarrow> path \<Rightarrow> world \<Rightarrow> (string + unit) \<times> world" where
  "copyAppBundle e mountPoint extractDir w =
     (case execAsync e (''ls '' @ quote mountPoint) w of
        (Inl m, w1) \<Rightarrow> (Inl m, w1)
      | (Inr lsOutput, w1) \<Rightarrow>
          (case find (\<lambda>name. endsWith name ''.app'') (splitStr (CHR 0x0A) lsOutput) of
             None \<Rightarrow> (Inl ''Could not find .app bundle in mounted DMG'', w1)
           | Some appBundle \<Rightarrow>
               (let w2 = emit (Log (''Copying '' @ appBundle @ ''...''))
                           (emit (Log (''Found app bundle: '' @ appBundle)) w1) in
                case execAsync e
                       (''cp -R '' @ quote (mountPoint @ ''/'' @ appBundle) @ '' ''
                          @ quote (render extractDir @ ''/'')) w2 of
                  (Inl m, w3) \<Rightarrow> (Inl m, w3)
                | (Inr out, w3) \<Rightarrow>
                    (Inr (), emit (Log (appBundle @ '' copied successfully'')) w3))))"

text \<open>Lines 265-274, the \<open>finally\<close> block: it runs whatever the body did, and keeps the body's outcome.\<close>

definition unmount :: "env \<Rightarrow> string \<Rightarrow> world \<Rightarrow> world" where
  "unmount e mountPoint w =
     (case execAsync e (detachCommand mountPoint) (emit (Log ''Unmounting DMG...'') w) of
        (Inl m, w1) \<Rightarrow> emit (Warn (''Warning: Failed to unmount DMG: '' @ m)) w1
      | (Inr out, w1) \<Rightarrow> emit (Log ''DMG unmounted'') w1)"

definition extractDmg :: "env \<Rightarrow> path \<Rightarrow> path \<Rightarrow> world \<Rightarrow> (string + unit) \<times> world" where
  "extractDmg e dmgPath extractDir w =
     (case execAsync e (attachCommand dmgPath) (emit (Log ''Mounting DMG...'') w) of
        (Inl m, w1) \<Rightarrow> (Inl m, w1)
      | (Inr attachOutput, w1) \<Rightarrow>
          (case matchVolumes attachOutput of
             None \<Rightarrow> (Inl ''Could not determine DMG mount point'', w1)
           | Some mountMatch \<Rightarrow>
               (let mountPoint = trim mountMatch;
                    w2 = emit (Log (''Mounted at: '' @ mountPoint)) w1 in
                case copyAppBundle e mountPoint extractDir w2 of
                  (r, w3) \<Rightarrow> (r, unmount e mountPoint w3))))"

section \<open>getFirefoxVersion (lines 283-296)\<close>

definition getFirefoxVersion :: "env \<Rightarrow> path \<Rightarrow> world \<Rightarrow> string option \<times> world" where
  "getFirefoxVersion e binaryPath w =
     (case execAsync e (quote (render binaryPath) @ '' --version'') w of
        (Inl m, w1) \<Rightarrow> (None, emit (Warn (''Could not determine Firefox version: '' @ m)) w1)
      | (Inr stdout, w1) \<Rightarrow> (matchFirefoxVersion stdout, w1))"

section \<open>downloadFirefox (lines 19-119)\<close>

text \<open>Lines 33-41: the \<open>try\<close> around the read of the cache file.\<close>

definition readCache :: "env \<Rightarrow> path \<Rightarrow> world \<Rightarrow> json option \<times> world" where
  "readCache e cacheFile w =
     (let failed = (\<lambda>m. (None, emit (Warn (''Failed to read cache file, re-downloading... '' @ m)) w)) in
      case readFileSync (fs w) cacheFile of
        Inl m \<Rightarrow> failed m
      | Inr content \<Rightarrow>
          (case JSON_parse e content of
             Inl m \<Rightarrow> failed m
           | Inr cached \<Rightarrow>
               (case getBinaryPath cached of
                  Inl m \<Rightarrow> failed m
                | Inr binaryPath \<Rightarrow>
                    if existsSyncValue e (fs w) binaryPath
                    then (Some cached,
                          emit (Log (''Using cached Firefox binary from: '' @ toText binaryPath)) w)
                    else (None, w))))"

text \<open>Line 20: the options with their defaults.\<close>

definition cacheDirOf :: "env \<Rightarrow> options \<Rightarrow> path" where
  "cacheDirOf e opts =
     (case cacheDir_opt opts of
        None \<Rightarrow> join (tmpdir e) [''firefox-downloads'']
      | Some d \<Rightarrow> d)"

definition forceDownloadOf :: "options \<Rightarrow> bool" where
  "forceDownloadOf opts = (case forceDownload_opt opts of None \<Rightarrow> False | Some b \<Rightarrow> b)"

text \<open>
  Lines 20-42: the cache directory, the cache key and the cache check. \<open>Inl\<close> leaves
  \<open>downloadFirefox\<close> (an error thrown by \<open>mkdirSync\<close>, or the cached record returned);
  \<open>Inr\<close> goes on with the cache directory, the hash and the cache file.
\<close>

definition checkCache ::
  "env \<Rightarrow> string \<Rightarrow> options \<Rightarrow> world \<Rightarrow> ((string + json) + path \<times> string \<times> path) \<times> world" where
  "checkCache e url opts w =
     (let cacheDir = cacheDirOf e opts;
          forceDownload = forceDownloadOf opts in
      case ensureDir cacheDir w of
        (Inl m, w1) \<Rightarrow> (Inl (Inl m), w1)
      | (Inr u, w1) \<Rightarrow>
          (let urlHash = md5hex e url;
               cacheFile = join cacheDir [urlHash @ ''.json''] in
           case (if \<not> forceDownload \<and> existsSync (fs w1) cacheFile
                 then readCache e cacheFile w1 else (None, w1)) of
             (Some cached, w2) \<Rightarrow> (Inl (Inr cached), w2)
           | (None, w2) \<Rightarrow> (Inr (cacheDir, urlHash, cacheFile), w2)))"

text \<open>Lines 44-60: the download. \<open>Inr\<close> is the path of the downloaded file.\<close>

definition fetchArchive :: "env \<Rightarrow> string \<Rightarrow> path \<Rightarrow> world \<Rightarrow> (string + path) \<times> world" where
  "fetchArchive e url cacheDir w =
     (let w1 = emit (Log (''Downloading Firefox from: '' @ url)) w;
          downloadPath = join cacheDir [archiveName url];
          failed = (\<lambda>m. Inl (''Failed to download Firefox from '' @ url @ '': '' @ m));
          w2 = emit (HttpGet url) w1 in
      case fetch e url of
        Inl m \<Rightarrow> (failed m, w2)
      | Inr r \<Rightarrow>
          if \<not> ok r
          then (failed (''Failed to download Firefox: '' @ showNat (status r) @ '' '' @ statusText r), w2)
          else (case pipeline r downloadPath w2 of
                  (Inl m, w3) \<Rightarrow> (failed m, w3)
                | (Inr u, w3) \<Rightarrow>
                    (Inr downloadPath, emit (Log (''Downloaded to: '' @ render downloadPath)) w3)))"

text \<open>Lines 71-86: the dispatch on the suffix of the downloaded file's path.\<close>

definition extractDispatch :: "env \<Rightarrow> path \<Rightarrow> path \<Rightarrow> world \<Rightarrow> (string + unit) \<times> world" where
  "extractDispatch e downloadPath extractDir w =
     (if endsWith (render downloadPath) ''.tar.bz2'' then tarExtract e downloadPath extractDir w
      else if endsWith (render downloadPath) ''.tar.gz'' then tarExtract e downloadPath extractDir w
      else if endsWith (render downloadPath) ''.dmg'' then extractDmg e downloadPath extractDir w
      else (Inl (''Unsupported archive format: '' @ render downloadPath), w))"

text \<open>Lines 62-89: the extraction. \<open>Inr\<close> is the extraction directory.\<close>

definition extractArchive ::
  "env \<Rightarrow> path \<Rightarrow> path \<Rightarrow> string \<Rightarrow> world \<Rightarrow> (string + path) \<times> world" where
  "extractArchive e downloadPath cacheDir urlHash w =
     (let extractDir = join cacheDir [''firefox-'' @ urlHash] in
      case ensureDir extractDir w of
        (Inl m, w1) \<Rightarrow> (Inl m, w1)
      | (Inr u, w1) \<Rightarrow>
          (case extractDispatch e downloadPath extractDir
                  (emit (Log (''Extracting to: '' @ render extractDir)) w1) of
             (Inl m, w2) \<Rightarrow> (Inl (''Failed to extract Firefox archive: '' @ m), w2)
           | (Inr u, w2) \<Rightarrow> (Inr extractDir, w2)))"

text \<open>Lines 91-118: the binary is located, made executable and probed, and the result is cached.\<close>

definition locateAndCache :: "env \<Rightarrow> path \<Rightarrow> path \<Rightarrow> world \<Rightarrow> (string + json) \<times> world" where
  "locateAndCache e cacheFile extractDir w =
     (case findFirefoxBinaryAt (process_platform e) (fs w) extractDir of
        None \<Rightarrow>
          (Inl (''Could not find Firefox binary in extracted archive at '' @ render extractDir), w)
      | Some binaryPath \<Rightarrow>
          (let w1 = (case chmodSync binaryPath w of
                       (Inl m, w') \<Rightarrow>
                         emit (Warn (''Warning: Failed to make binary executable: '' @ m)) w'
                     | (Inr u, w') \<Rightarrow> w') in
           case getFirefoxVersion e binaryPath w1 of
             (v, w2) \<Rightarrow>
               (let version = (case v of None \<Rightarrow> ''unknown'' | Some x \<Rightarrow> x);
                    result = JObject [(''binaryPath'', JString (render binaryPath)),
                                      (''version'', JString version),
                                      (''extractPath'', JString (render extractDir))] in
                case writeFileSync cacheFile (JSON_stringify e result) w2 of
                  (Inl m, w3) \<Rightarrow> (Inl m, w3)
                | (Inr u, w3) \<Rightarrow>
                    (Inr result,
                     emit (Log (''Firefox binary ready at: '' @ render binaryPath)) w3))))"

definition downloadFirefox :: "env \<Rightarrow> string \<Rightarrow> options \<Rightarrow> world \<Rightarrow> (string + json) \<times> world" where
  "downloadFirefox e url opts w =
     (case checkCache e url opts w of
        (Inl r, w1) \<Rightarrow> (r, w1)
      | (Inr (cacheDir, urlHash, cacheFile), w1) \<Rightarrow>
          (case fetchArchive e url cacheDir w1 of
             (Inl m, w2) \<Rightarrow> (Inl m, w2)
           | (Inr downloadPath, w2) \<Rightarrow>
               (case extractArchive e downloadPath cacheDir urlHash w2 of
                  (Inl m, w3) \<Rightarrow> (Inl m, w3)
                | (Inr extractDir, w3) \<Rightarrow> locateAndCache e cacheFile extractDir w3)))"

section \<open>Example inputs\<close>

definition flatTree :: node where
  "flatTree = Dir [(''firefox'', Dir [(''firefox'', File [])])]"

definition nestedEntries :: "(string \<times> node) list" where
  "nestedEntries =
     [(''docs'', Dir [(''readme'', File [])]),
      (''build'', Dir [(''firefox'', Dir [(''firefox'', File [])])]),
      (''other'', Dir [(''firefox'', Dir [(''firefox-bin'', File [])])])]"

definition okResponse :: response where
  "okResponse = \<lparr>ok = True, status = 200, statusText = ''OK'', body = ''archive'', bodyError = None\<rparr>"

definition notFoundResponse :: response where
  "notFoundResponse =
     \<lparr>ok = False, status = 404, statusText = ''Not Found'', body = [], bodyError = None\<rparr>"

definition cachedRecord :: json where
  "cachedRecord =
     JObject [(''binaryPath'', JString ''/opt/firefox/firefox''),
              (''version'', JString ''147.0''),
              (''extractPath'', JString ''/opt'')]"

text \<open>
  A Linux machine whose archives hold one file, \<open>README\<close>, where no command can be run,
  and whose server knows every URL but one.
\<close>

definition exampleEnv :: env where
  "exampleEnv =
     \<lparr>process_platform = ''linux'',
      tmpdir = [''tmp''],
      process_cwd = [],
      pathMax = 4096,
      md5hex = (\<lambda>url. ''5d41''),
      fetch = (\<lambda>url. if url = ''https://example.org/missing.tar.gz''
                     then Inr notFoundResponse else Inr okResponse),
      tar_extract = (\<lambda>file cwd root.
                       case writeAt root (cwd @ [''README'']) ''text'' of
                         Inl m \<Rightarrow> (Some m, root)
                       | Inr root' \<Rightarrow> (None, root')),
      exec = (\<lambda>cmd root. (Inl ''not available'', root)),
      JSON_parse = (\<lambda>content. if content = ''{cached}'' then Inr cachedRecord
                              else Inl ''Unexpected token''),
      JSON_stringify = (\<lambda>v. ''{result}'')\<rparr>"

text \<open>A Mac where the image mounts, and where listing the volume and unmounting it fail.\<close>

definition dmgEnv :: env where
  "dmgEnv =
     \<lparr>process_platform = ''darwin'',
      tmpdir = [''tmp''],
      process_cwd = [],
      pathMax = 1024,
      md5hex = (\<lambda>url. ''5d41''),
      fetch = (\<lambda>url. Inr okResponse),
      tar_extract = (\<lambda>file cwd root. (None, root)),
      exec = (\<lambda>cmd root. if cmd = attachCommand [''cache'', ''Firefox.dmg'']
                          then (Inr ''/dev/disk4s2 Apple_HFS /Volumes/Firefox'', root)
                          else (Inl ''resource busy'', root)),
      JSON_parse = (\<lambda>content. Inl ''Unexpected token''),
      JSON_stringify = (\<lambda>v. ''{result}'')\<rparr>"

definition exampleOptions :: options where
  "exampleOptions = \<lparr>cacheDir_opt = Some [''cache''], forceDownload_opt = None\<rparr>"

definition emptyWorld :: world where
  "emptyWorld = \<lparr>fs = Dir [], trace = []\<rparr>"

definition cachedWorld :: world where
  "cachedWorld =
     \<lparr>fs = Dir [(''cache'', Dir [(''5d41.json'', File ''{cached}'')]),
                (''opt'', Dir [(''firefox'', Dir [(''firefox'', File [])])])],
      trace = []\<rparr>"


text \<open>The worlds a run from \<open>emptyWorld\<close> passes through, for an archive stored under \<open>name\<close>.\<close>

definition createdWorld :: world where
  "createdWorld = \<lparr>fs = Dir [(''cache'', Dir [])], trace = [Mkdir [''cache'']]\<rparr>"

definition downloadedWorld :: "string \<Rightarrow> string \<Rightarrow> world" where
  "downloadedWorld url name =
     \<lparr>fs = Dir [(''cache'', Dir [(name, File ''archive'')])],
      trace = [Mkdir [''cache''],
               Log (''Downloading Firefox from: '' @ url),
               HttpGet url,
               StreamTo [''cache'', name],
               Log (''Downloaded to: /cache/'' @ name)]\<rparr>"

definition preparedWorld :: "string \<Rightarrow> string \<Rightarrow> world" where
  "preparedWorld url name =
     \<lparr>fs = Dir [(''cache'', Dir [(name, File ''archive''), (''firefox-5d41'', Dir [])])],
      trace = trace (downloadedWorld url name) @ [Mkdir [''cache'', ''firefox-5d41'']]\<rparr>"

definition extractedWorld :: "string \<Rightarrow> string \<Rightarrow> world" where
  "extractedWorld url name =
     \<lparr>fs = Dir [(''cache'', Dir [(name, File ''archive''),
                                  (''firefox-5d41'', Dir [(''README'', File ''text'')])])],
      trace = trace (preparedWorld url name)
              @ [Log ''Extracting to: /cache/firefox-5d41'',
                 TarExtract [''cache'', name] [''cache'', ''firefox-5d41'']]\<rparr>"

definition tarUrl :: string where
  "tarUrl = ''https://example.org/builds/firefox.tar.gz''"

definition zipUrl :: string where
  "zipUrl = ''https://example.org/builds/firefox.zip''"

text \<open>The worlds of a run of \<open>extractDmg\<close> under \<open>dmgEnv\<close>.\<close>

definition mountedWorld :: world where
  "mountedWorld =
     \<lparr>fs = Dir [],
      trace = [Log ''Mounting DMG...'', Exec (attachCommand [''cache'', ''Firefox.dmg''])]\<rparr>"

definition listedWorld :: world where
  "listedWorld =
     \<lparr>fs = Dir [],
      trace = trace mountedWorld
              @ [Log ''Mounted at: /Volumes/Firefox'', Exec (''ls '' @ quote ''/Volumes/Firefox'')]\<rparr>"

definition detachedWorld :: world where
  "detachedWorld =
     \<lparr>fs = Dir [],
      trace = trace listedWorld
              @ [Log ''Unmounting DMG...'', Exec (detachCommand ''/Volumes/Firefox'')]\<rparr>"







section \<open>Properties of the locator\<close>

lemma firstSome_None_iff: "firstSome f xs = None \<longleftrightarrow> (\<forall>x\<in>set xs. f x = None)"
  by (induction xs) (auto split: option.splits)

lemma firstSome_Some_iff:
  "firstSome f xs = Some y \<longleftrightarrow>
     (\<exists>i<length xs. f (xs ! i) = Some y \<and> (\<forall>j<i. f (xs ! j) = None))"
proof (induction xs)
  case Nil
  then show ?case by simp
next
  case (Cons x xs)
  show ?case
  proof (cases "f x")
    case None
    have "(\<exists>i<length (x # xs). f ((x # xs) ! i) = Some y \<and> (\<forall>j<i. f ((x # xs) ! j) = None))
          \<longleftrightarrow> (\<exists>i<length xs. f (xs ! i) = Some y \<and> (\<forall>j<i. f (xs ! j) = None))"
      (is "?L \<longleftrightarrow> ?R")
    proof
      assume ?L
      then obtain i where i: "i < length (x # xs)" "f ((x # xs) ! i) = Some y"
        "\<forall>j<i. f ((x # xs) ! j) = None" by blast
      from i(2) None obtain k where k: "i = Suc k" by (cases i) auto
      have "\<forall>j<k. f (xs ! j) = None"
      proof (intro allI impI)
        fix j assume "j < k"
        then have "Suc j < i" using k by simp
        with i(3) have "f ((x # xs) ! Suc j) = None" by blast
        then show "f (xs ! j) = None" by simp
      qed
      with i k show ?R by auto
    next
      assume ?R
      then obtain i where i: "i < length xs" "f (xs ! i) = Some y" "\<forall>j<i. f (xs ! j) = None"
        by blast
      have "\<forall>j<Suc i. f ((x # xs) ! j) = None"
      proof (intro allI impI)
        fix j assume "j < Suc i"
        then show "f ((x # xs) ! j) = None" using None i(3) by (cases j) auto
      qed
      with i show ?L by (intro exI[of _ "Suc i"]) auto
    qed
    with None Cons show ?thesis by simp
  next
    case (Some z)
    have "(\<exists>i<length (x # xs). f ((x # xs) ! i) = Some y \<and> (\<forall>j<i. f ((x # xs) ! j) = None))
          \<longleftrightarrow> z = y"
    proof
      assume "\<exists>i<length (x # xs). f ((x # xs) ! i) = Some y \<and> (\<forall>j<i. f ((x # xs) ! j) = None)"
      then obtain i where i: "f ((x # xs) ! i) = Some y" "\<forall>j<i. f ((x # xs) ! j) = None" by blast
      show "z = y"
      proof (cases i)
        case 0
        with i Some show ?thesis by simp
      next
        case (Suc k)
        with i(2) have "f ((x # xs) ! 0) = None" by blast
        with Some show ?thesis by simp
      qed
    next
      assume "z = y"
      with Some show "\<exists>i<length (x # xs). f ((x # xs) ! i) = Some y \<and> (\<forall>j<i. f ((x # xs) ! j) = None)"
        by (intro exI[of _ 0]) simp
    qed
    with Some show ?thesis by simp
  qed
qed

lemma searchNested_firstSome:
  "searchNested platform extractDir entries =
     firstSome (\<lambda>entry. findFirefoxBinary platform (join extractDir [fst entry]) (snd entry))
       (filter (\<lambda>entry. isDirectory (snd entry) \<and> \<not> endsWith (fst entry) ''.app'') entries)"
  by (induction entries) (simp_all split: option.splits)

lemma searchFallback_firstSome:
  "searchFallback platform extractDir entries =
     firstSome (\<lambda>entry. findFirefoxBinary platform (join extractDir [fst entry]) (snd entry))
       (filter (\<lambda>entry. isDirectory (snd entry)) entries)"
  by (induction entries) (simp_all split: option.splits)

lemma allDirs_not_dir: "\<not> isDirectory n \<Longrightarrow> allDirs d n = []"
  by (cases n) simp_all

lemma searchFallback_None_searchNested:
  "searchFallback platform d entries = None \<Longrightarrow> searchNested platform d entries = None"
  by (induction entries) (auto split: option.splits if_splits)

lemma findFirefoxBinary_Dir_None:
  "(findFirefoxBinary platform d (Dir entries) = None) =
     (matchRules platform d (Dir entries) = None \<and> searchFallback platform d entries = None)"
  using searchFallback_None_searchNested [of platform d entries]
  by (auto simp: matchRules_def split: option.splits if_splits)

lemma searchFallback_None_iff:
  assumes "\<And>entry d'. entry \<in> set entries \<Longrightarrow>
             (findFirefoxBinary platform d' (snd entry) = None) =
             (\<forall>x\<in>set (allDirs d' (snd entry)). matchRules platform (fst x) (snd x) = None)"
  shows "(searchFallback platform d entries = None) =
         (\<forall>x\<in>set (allDirsList d entries). matchRules platform (fst x) (snd x) = None)"
  using assms
proof (induction entries)
  case Nil
  then show ?case by simp
next
  case (Cons entry rest)
  have rest: "(searchFallback platform d rest = None) =
         (\<forall>x\<in>set (allDirsList d rest). matchRules platform (fst x) (snd x) = None)"
    using Cons by simp
  have hd: "(findFirefoxBinary platform (join d [fst entry]) (snd entry) = None) =
         (\<forall>x\<in>set (allDirs (join d [fst entry]) (snd entry)).
            matchRules platform (fst x) (snd x) = None)"
    using Cons.prems by simp
  show ?case
  proof (cases "isDirectory (snd entry)")
    case True
    then show ?thesis using rest hd by (auto split: option.splits)
  next
    case False
    then show ?thesis using rest by (simp add: allDirs_not_dir)
  qed
qed

lemma findFirefoxBinary_None_iff:
  "(findFirefoxBinary platform d n = None) =
     (\<forall>x\<in>set (allDirs d n). matchRules platform (fst x) (snd x) = None)"
proof (induction n arbitrary: d)
  case (File c)
  then show ?case by simp
next
  case Other
  then show ?case by simp
next
  case (Dir entries)
  have "(searchFallback platform d entries = None) =
         (\<forall>x\<in>set (allDirsList d entries). matchRules platform (fst x) (snd x) = None)"
  proof (rule searchFallback_None_iff)
    fix entry d'
    assume mem: "entry \<in> set entries"
    have "snd entry \<in> Basic_BNFs.snds entry"
      by (cases entry) simp
    with mem show "(findFirefoxBinary platform d' (snd entry) = None) =
             (\<forall>x\<in>set (allDirs d' (snd entry)). matchRules platform (fst x) (snd x) = None)"
      by (rule Dir.IH)
  qed
  then show ?case
    unfolding findFirefoxBinary_Dir_None by simp
qed

lemma findFirefoxBinary_platformSpecific:
  "findFirefoxBinary pf extractDir (Dir entries) =
     (case platformSpecific pf extractDir (Dir entries) of
        Some found \<Rightarrow> Some found
      | None \<Rightarrow> searchFallback pf extractDir entries)"
  by (simp add: platformSpecific_def split: option.splits)

text \<open>
  Claim C2. On every platform and every directory listing, when the platform-specific
  part of the locator finds nothing, the result is the first result, in listing order, of
  the locator itself applied to each subdirectory: a subdirectory's result is returned
  only when all subdirectories before it gave \<open>null\<close>, and a \<open>null\<close> result means the
  matching rules failed at every directory of the tree, at any depth.
\<close>

theorem fallback_first_match:
  assumes "platformSpecific pf extractDir (Dir entries) = None"
  shows "findFirefoxBinary pf extractDir (Dir entries) =
           firstSome (\<lambda>entry. findFirefoxBinary pf (join extractDir [fst entry]) (snd entry))
             (subdirectories entries)
         \<and> (\<forall>found. findFirefoxBinary pf extractDir (Dir entries) = Some found \<longrightarrow>
               (\<exists>i<length (subdirectories entries).
                  findFirefoxBinary pf (join extractDir [fst (subdirectories entries ! i)])
                    (snd (subdirectories entries ! i)) = Some found
                  \<and> (\<forall>j<i. findFirefoxBinary pf (join extractDir [fst (subdirectories entries ! j)])
                              (snd (subdirectories entries ! j)) = None)))
         \<and> (findFirefoxBinary pf extractDir (Dir entries) = None \<longrightarrow>
               (\<forall>x\<in>set (allDirs extractDir (Dir entries)). matchRules pf (fst x) (snd x) = None))"
proof -
  let ?f = "\<lambda>entry. findFirefoxBinary pf (join extractDir [fst entry]) (snd entry)"
  have eq: "findFirefoxBinary pf extractDir (Dir entries) = firstSome ?f (subdirectories entries)"
    using assms
    by (simp only: findFirefoxBinary_platformSpecific searchFallback_firstSome
        subdirectories_def option.case)
  have first: "\<forall>found. findFirefoxBinary pf extractDir (Dir entries) = Some found \<longrightarrow>
               (\<exists>i<length (subdirectories entries).
                  ?f (subdirectories entries ! i) = Some found
                  \<and> (\<forall>j<i. ?f (subdirectories entries ! j) = None))"
    unfolding eq by (simp only: firstSome_Some_iff) blast
  have none: "findFirefoxBinary pf extractDir (Dir entries) = None \<longrightarrow>
               (\<forall>x\<in>set (allDirs extractDir (Dir entries)). matchRules pf (fst x) (snd x) = None)"
    by (simp only: findFirefoxBinary_None_iff) blast
  from eq first none show ?thesis by blast
qed

theorem fallback_first_match_witness:
  "platformSpecific ''linux'' [''x''] (Dir nestedEntries) = None
   \<and> subdirectories nestedEntries = nestedEntries
   \<and> findFirefoxBinary ''linux'' [''x'', ''docs''] (snd (nestedEntries ! 0)) = None
   \<and> findFirefoxBinary ''linux'' [''x'', ''build''] (snd (nestedEntries ! 1))
       = Some [''x'', ''build'', ''firefox'', ''firefox'']
   \<and> findFirefoxBinary ''linux'' [''x'', ''other''] (snd (nestedEntries ! 2))
       = Some [''x'', ''other'', ''firefox'', ''firefox-bin'']
   \<and> findFirefoxBinary ''linux'' [''x''] (Dir nestedEntries)
       = Some [''x'', ''build'', ''firefox'', ''firefox'']"
proof -
  have h: "platformSpecific ''linux'' [''x''] (Dir nestedEntries) = None"
    by (simp add: nestedEntries_def platformSpecific_def checkLinuxPaths_def linuxPaths_def
        existsSync_def)
  have sub: "subdirectories nestedEntries = nestedEntries"
    by (simp add: nestedEntries_def subdirectories_def)
  have docs: "findFirefoxBinary ''linux'' [''x'', ''docs''] (snd (nestedEntries ! 0)) = None"
    by (simp add: nestedEntries_def checkLinuxPaths_def linuxPaths_def existsSync_def)
  have build: "findFirefoxBinary ''linux'' [''x'', ''build''] (snd (nestedEntries ! 1))
       = Some [''x'', ''build'', ''firefox'', ''firefox'']"
    by (simp add: nestedEntries_def checkLinuxPaths_def linuxPaths_def existsSync_def)
  have other: "findFirefoxBinary ''linux'' [''x'', ''other''] (snd (nestedEntries ! 2))
       = Some [''x'', ''other'', ''firefox'', ''firefox-bin'']"
    by (simp add: nestedEntries_def checkLinuxPaths_def linuxPaths_def existsSync_def)
  have "findFirefoxBinary ''linux'' [''x''] (Dir nestedEntries) =
          firstSome (\<lambda>entry. findFirefoxBinary ''linux'' (join [''x''] [fst entry]) (snd entry))
            (subdirectories nestedEntries)"
    using fallback_first_match [OF h] by blast
  also have "\<dots> = Some [''x'', ''build'', ''firefox'', ''firefox'']"
    unfolding sub
    by (simp add: nestedEntries_def checkLinuxPaths_def linuxPaths_def existsSync_def)
  finally show ?thesis using h sub docs build other by blast
qed

text \<open>
  Claim C5, as stated, is false on \<open>darwin\<close>: the tree holds \<open>firefox/firefox\<close>, and the
  locator, which checks the two fixed paths only under \<open>platform === 'linux'\<close>, returns
  \<open>null\<close>.
\<close>

theorem flat_layout_darwin_counterexample:
  "existsSync flatTree [''firefox'', ''firefox'']
   \<and> findFirefoxBinary ''darwin'' [''tmp'', ''x''] flatTree = None"
  by (simp add: flatTree_def existsSync_def searchAppBundles_def endsWith_def)

text \<open>
  Claim C5, amended. On \<open>linux\<close>, for every extraction directory whose tree holds
  \<open>firefox/firefox\<close>, the locator returns exactly the path \<open>extractDir/firefox/firefox\<close>.
\<close>

theorem linux_flat_layout:
  assumes "existsSync n [''firefox'', ''firefox'']"
  shows "findFirefoxBinary ''linux'' extractDir n = Some (extractDir @ [''firefox'', ''firefox''])"
proof (cases n)
  case (Dir entries)
  with assms show ?thesis
    by (simp add: checkLinuxPaths_def linuxPaths_def)
next
  case (File c)
  with assms show ?thesis by (simp add: existsSync_def)
next
  case Other
  with assms show ?thesis by (simp add: existsSync_def)
qed

theorem linux_flat_layout_witness:
  "existsSync flatTree [''firefox'', ''firefox'']
   \<and> findFirefoxBinary ''linux'' [''tmp'', ''x''] flatTree
       = Some [''tmp'', ''x'', ''firefox'', ''firefox'']"
proof -
  have h: "existsSync flatTree [''firefox'', ''firefox'']"
    by (simp add: flatTree_def existsSync_def)
  show ?thesis using h linux_flat_layout [OF h, of "[''tmp'', ''x'']"] by simp
qed

section \<open>Properties of the archive name\<close>

lemma consFirst_not_Nil: "consFirst c xs \<noteq> []"
  by (cases xs) simp_all

lemma splitStr_not_Nil: "splitStr sep s \<noteq> []"
  by (induction s) (simp_all add: consFirst_not_Nil)

lemma hd_splitStr: "hd (splitStr sep s) = takeWhile (\<lambda>c. c \<noteq> sep) s"
proof (induction s)
  case Nil
  then show ?case by simp
next
  case (Cons c cs)
  obtain x xs where x: "splitStr sep cs = x # xs"
    using splitStr_not_Nil [of sep cs] by (cases "splitStr sep cs") auto
  with Cons show ?case by simp
qed

lemma archiveName_takeWhile:
  "archiveName url = takeWhile (\<lambda>c. c \<noteq> CHR ''?'') (basename url)"
  by (simp add: archiveName_def hd_splitStr)

lemma takeWhile_all: "(\<And>x. x \<in> set xs \<Longrightarrow> P x) \<Longrightarrow> takeWhile P xs = xs"
  by (induction xs) simp_all

lemma lastSegment_subset:
  "x \<in> set (rev (takeWhile (\<lambda>c. c \<noteq> CHR ''/'') (rev p))) \<Longrightarrow> x \<in> set p"
  by (auto dest: set_takeWhileD)

lemma basename_no_query:
  assumes "p = [] \<or> last p \<noteq> CHR ''/''"
  shows "basename p = rev (takeWhile (\<lambda>c. c \<noteq> CHR ''/'') (rev p))"
proof (cases p rule: rev_cases)
  case Nil
  then show ?thesis by (simp add: basename_def)
next
  case (snoc ys y)
  with assms have "y \<noteq> CHR ''/''" by simp
  with snoc show ?thesis by (simp add: basename_def)
qed

lemma basename_query:
  assumes "q \<noteq> []" and "\<And>x. x \<in> set q \<Longrightarrow> x \<noteq> CHR ''/''"
  shows "basename (p @ q) = rev (takeWhile (\<lambda>c. c \<noteq> CHR ''/'') (rev p)) @ q"
proof -
  obtain ys y where q: "q = ys @ [y]" using assms(1) by (cases q rule: rev_cases) auto
  have y: "y \<noteq> CHR ''/''" using assms(2) q by simp
  have ys: "\<And>x. x \<in> set (rev ys) \<Longrightarrow> x \<noteq> CHR ''/''" using assms(2) q by simp
  have "takeWhile (\<lambda>c. c \<noteq> CHR ''/'') (rev ys @ rev p)
        = rev ys @ takeWhile (\<lambda>c. c \<noteq> CHR ''/'') (rev p)"
    using ys by (rule takeWhile_append2)
  then show ?thesis using y by (simp add: basename_def q)
qed

lemma archiveName_agrees:
  assumes q: "CHR ''/'' \<notin> set (dropWhile (\<lambda>c. c \<noteq> CHR ''?'') url)"
    and p: "stripQuery url = [] \<or> last (stripQuery url) \<noteq> CHR ''/''"
  shows "archiveName url = lastPathSegment url"
proof -
  let ?p = "takeWhile (\<lambda>c. c \<noteq> CHR ''?'') url"
  let ?q = "dropWhile (\<lambda>c. c \<noteq> CHR ''?'') url"
  let ?seg = "rev (takeWhile (\<lambda>c. c \<noteq> CHR ''/'') (rev ?p))"
  have url: "?p @ ?q = url" by (rule takeWhile_dropWhile_id)
  have seg: "lastPathSegment url = ?seg"
    by (simp only: lastPathSegment_def stripQuery_def)
  have segq: "x \<noteq> CHR ''?''" if "x \<in> set ?seg" for x
  proof -
    from that have "x \<in> set ?p" by (rule lastSegment_subset)
    then show ?thesis by (auto dest: set_takeWhileD)
  qed
  show ?thesis
  proof (cases "?q = []")
    case True
    with url have u: "?p = url" by simp
    have "basename ?p = ?seg"
      using p by (intro basename_no_query) (simp only: stripQuery_def)
    then have "basename url = ?seg" by (simp only: u)
    then have "archiveName url = takeWhile (\<lambda>c. c \<noteq> CHR ''?'') ?seg"
      by (simp only: archiveName_takeWhile)
    also have "\<dots> = ?seg" using segq by (rule takeWhile_all)
    finally show ?thesis by (simp only: seg)
  next
    case False
    then have hdq: "hd ?q = CHR ''?''"
      using hd_dropWhile [of "\<lambda>c. c \<noteq> CHR ''?''" url] by simp
    have nos: "x \<noteq> CHR ''/''" if "x \<in> set ?q" for x
      using that q by auto
    have "basename (?p @ ?q) = ?seg @ ?q"
      using False nos by (rule basename_query)
    then have "basename url = ?seg @ ?q" by (simp only: url)
    then have "archiveName url = takeWhile (\<lambda>c. c \<noteq> CHR ''?'') (?seg @ ?q)"
      by (simp only: archiveName_takeWhile)
    also have "\<dots> = ?seg @ takeWhile (\<lambda>c. c \<noteq> CHR ''?'') ?q"
      using segq by (rule takeWhile_append2)
    also have "takeWhile (\<lambda>c. c \<noteq> CHR ''?'') ?q = []"
      using False hdq by (cases ?q) simp_all
    finally show ?thesis by (simp only: seg append_Nil2)
  qed
qed

text \<open>
  Claim C9 fails on a URL whose query string holds a slash: \<open>basename\<close> is taken of the
  whole URL before the query is cut off, so the name is a piece of the query, where the
  last path segment of the URL is \<open>firefox.tar.bz2\<close>.
\<close>

theorem archiveName_query_with_slash:
  "archiveName ''https://ftp.example.org/pub/firefox.tar.bz2?mirror=eu/west'' = ''west''
   \<and> lastPathSegment ''https://ftp.example.org/pub/firefox.tar.bz2?mirror=eu/west''
       = ''firefox.tar.bz2''"
  by (simp add: archiveName_def basename_def lastPathSegment_def stripQuery_def)

section \<open>Properties of the file system calls and of the trace\<close>

lemma lookup_append:
  "lookup n (p @ q) = (case lookup n p of None \<Rightarrow> None | Some m \<Rightarrow> lookup m q)"
  by (induction n p rule: lookup.induct) (simp_all split: option.splits)

lemma existsSync_parent: "existsSync n (p @ q) \<Longrightarrow> existsSync n p"
  by (simp add: existsSync_def lookup_append split: option.splits)

lemma join_proper:
  "s \<noteq> [] \<Longrightarrow> s \<noteq> ''.'' \<Longrightarrow> s \<noteq> ''..'' \<Longrightarrow> join p [s] = p @ [s]"
  by simp

lemma join_json: "join p [h @ ''.json''] = p @ [h @ ''.json'']"
proof -
  have "length (h @ ''.json'') \<ge> 5" by simp
  then have "h @ ''.json'' \<noteq> []" "h @ ''.json'' \<noteq> ''.''" "h @ ''.json'' \<noteq> ''..''"
    by (auto dest: arg_cong [where f = length])
  then show ?thesis by (rule join_proper)
qed

lemma emit_simps: "fs (emit ev w) = fs w" "trace (emit ev w) = trace w @ [ev]"
  by (simp_all add: emit_def)

lemma readFileSync_exists: "readFileSync root p = Inr content \<Longrightarrow> existsSync root p"
  by (auto simp: readFileSync_def existsSync_def split: option.splits)

lemma ensureDir_exists: "existsSync (fs w) p \<Longrightarrow> ensureDir p w = (Inr (), w)"
  by (simp add: ensureDir_def)

subsection \<open>The trace only grows\<close>

lemma execAsync_trace:
  "execAsync e cmd w = (r, w') \<Longrightarrow> trace w' = trace w @ [Exec cmd]"
  by (auto simp: execAsync_def emit_def split: prod.splits)


lemma mkdirSync_trace: "mkdirSync p w = (r, w') \<Longrightarrow> trace w' = trace w @ [Mkdir p]"
  by (auto simp: mkdirSync_def emit_def split: sum.splits)














lemma map_of_updateEntry: "map_of (updateEntry s c es) s = Some c"
  by (induction es) auto

lemma mkdirp_fresh:
  "lookup root p = None \<Longrightarrow> mkdirp root p = Inr root' \<Longrightarrow> lookup root' p = Some (Dir [])"
proof (induction root p arbitrary: root' rule: mkdirp.induct)
  case (4 es s p)
  show ?case
  proof (cases "map_of es s")
    case None
    obtain c where c: "mkdirp (Dir []) p = Inr c" and r: "root' = Dir (es @ [(s, c)])"
      using 4(4) None by (auto split: sum.splits)
    have "lookup c p = Some (Dir [])"
    proof (cases p)
      case Nil
      with c show ?thesis by simp
    next
      case (Cons s' p')
      then have "lookup (Dir []) p = None" by simp
      from "4.IH"(1) [OF None this c] show ?thesis .
    qed
    with None r show ?thesis by (simp add: map_add_def)
  next
    case (Some c0)
    obtain c where c: "mkdirp c0 p = Inr c" and r: "root' = Dir (updateEntry s c es)"
      using 4(4) Some by (auto split: sum.splits)
    have "lookup c0 p = None" using 4(3) Some by simp
    from "4.IH"(2) [OF Some this c] have "lookup c p = Some (Dir [])" .
    with r show ?thesis by (simp add: map_of_updateEntry)
  qed
qed simp_all

lemma ensureDir_child:
  assumes "ensureDir p w = (Inr u, w')"
  shows "lookup (fs w') (p @ [s]) = lookup (fs w) (p @ [s])"
proof (cases "existsSync (fs w) p")
  case True
  with assms show ?thesis by (simp add: ensureDir_def)
next
  case False
  then have none: "lookup (fs w) p = None" by (simp add: existsSync_def)
  from assms False obtain root where m: "mkdirp (fs w) p = Inr root" and w': "fs w' = root"
    by (auto simp: ensureDir_def mkdirSync_def emit_def split: sum.splits)
  from none m have "lookup root p = Some (Dir [])" by (rule mkdirp_fresh)
  with none w' show ?thesis by (simp add: lookup_append)
qed

lemma readCache_miss:
  assumes "readCache e cacheFile w = (None, w')"
  shows "fs w' = fs w \<and> (w' = w \<or> (\<exists>m. w' = emit (Warn m) w))"
proof -
  let ?failed = "\<lambda>m. emit (Warn (''Failed to read cache file, re-downloading... '' @ m)) w"
  show ?thesis
  proof (cases "readFileSync (fs w) cacheFile")
    case (Inl m)
    with assms have "w' = ?failed m" by (simp add: readCache_def Let_def)
    then show ?thesis by (auto simp: emit_simps)
  next
    case content: (Inr content)
    show ?thesis
    proof (cases "JSON_parse e content")
      case (Inl m)
      with assms content have "w' = ?failed m" by (simp add: readCache_def Let_def)
      then show ?thesis by (auto simp: emit_simps)
    next
      case cached: (Inr cached)
      show ?thesis
      proof (cases "getBinaryPath cached")
        case (Inl m)
        with assms content cached have "w' = ?failed m" by (simp add: readCache_def Let_def)
        then show ?thesis by (auto simp: emit_simps)
      next
        case (Inr binaryPath)
        with assms content cached have "w' = w"
          by (simp add: readCache_def Let_def split: if_splits)
        then show ?thesis by simp
      qed
    qed
  qed
qed

lemma checkCache_miss:
  assumes "checkCache e url opts w = (Inr (cacheDir, urlHash, cacheFile), w1)"
  shows "cacheFile = cacheDir @ [urlHash @ ''.json'']"
    and "lookup (fs w1) cacheFile = lookup (fs w) cacheFile"
    and "\<exists>evs. trace w1 = trace w @ evs \<and> (\<forall>ev\<in>set evs. (\<exists>p. ev = Mkdir p) \<or> (\<exists>m. ev = Warn m))"
proof -
  obtain a w0 where a: "ensureDir (cacheDirOf e opts) w = (a, w0)"
    by (cases "ensureDir (cacheDirOf e opts) w")
  from a assms obtain u where u: "a = Inr u"
    by (cases a) (auto simp: checkCache_def Let_def simp del: join.simps)
  let ?cf = "cacheDirOf e opts @ [md5hex e url @ ''.json'']"
  let ?rc = "if \<not> forceDownloadOf opts \<and> existsSync (fs w0) ?cf
             then readCache e ?cf w0 else (None, w0)"
  have names: "cacheDir = cacheDirOf e opts \<and> urlHash = md5hex e url \<and> cacheFile = ?cf
               \<and> ?rc = (None, w1)"
    using assms a u
    by (auto simp: checkCache_def Let_def join_json simp del: join.simps
        split: prod.splits option.splits)
  then show "cacheFile = cacheDir @ [urlHash @ ''.json'']" by simp
  have w1: "fs w1 = fs w0 \<and> (w1 = w0 \<or> (\<exists>m. w1 = emit (Warn m) w0))"
  proof (cases "\<not> forceDownloadOf opts \<and> existsSync (fs w0) ?cf")
    case True
    with names have "readCache e ?cf w0 = (None, w1)" by simp
    then show ?thesis by (rule readCache_miss)
  next
    case False
    with names have "w1 = w0" by auto
    then show ?thesis by simp
  qed
  have "lookup (fs w0) ?cf = lookup (fs w) ?cf"
    using a u by (auto intro: ensureDir_child)
  with w1 names show "lookup (fs w1) cacheFile = lookup (fs w) cacheFile" by simp
  have t0: "trace w0 = trace w \<or> trace w0 = trace w @ [Mkdir (cacheDirOf e opts)]"
    using a by (auto simp: ensureDir_def dest: mkdirSync_trace split: if_splits)
  from w1 have t1: "trace w1 = trace w0 \<or> (\<exists>m. trace w1 = trace w0 @ [Warn m])"
    by (auto simp: emit_simps)
  from t0 t1 show "\<exists>evs. trace w1 = trace w @ evs \<and> (\<forall>ev\<in>set evs. (\<exists>p. ev = Mkdir p) \<or> (\<exists>m. ev = Warn m))"
  proof (elim disjE exE)
    assume "trace w0 = trace w" "trace w1 = trace w0"
    then show ?thesis by (intro exI [of _ "[]"]) simp
  next
    fix m assume "trace w0 = trace w" "trace w1 = trace w0 @ [Warn m]"
    then show ?thesis by (intro exI [of _ "[Warn m]"]) simp
  next
    assume "trace w0 = trace w @ [Mkdir (cacheDirOf e opts)]" "trace w1 = trace w0"
    then show ?thesis by (intro exI [of _ "[Mkdir (cacheDirOf e opts)]"]) simp
  next
    fix m assume "trace w0 = trace w @ [Mkdir (cacheDirOf e opts)]" "trace w1 = trace w0 @ [Warn m]"
    then show ?thesis by (intro exI [of _ "[Mkdir (cacheDirOf e opts), Warn m]"]) simp
  qed
qed



text \<open>
  The operating system resolves a path string as it stands, not its normal form: the
  empty string, a slash after a regular file and a step through a missing directory
  all fail.
\<close>

lemma existsSyncRaw_not_lexical:
  "\<not> existsSyncRaw exampleEnv (fs cachedWorld) ''''
   \<and> \<not> existsSyncRaw exampleEnv (fs cachedWorld) ''/opt/firefox/firefox/''
   \<and> \<not> existsSyncRaw exampleEnv (fs cachedWorld) ''/opt/firefox/firefox/.''
   \<and> \<not> existsSyncRaw exampleEnv (fs cachedWorld) ''/missing/../opt''
   \<and> existsSyncRaw exampleEnv (fs cachedWorld) ''/opt//firefox/../firefox/./firefox''
   \<and> existsSyncRaw exampleEnv (fs cachedWorld) ''opt/firefox/''"
  by (simp add: existsSyncRaw_def exampleEnv_def cachedWorld_def)






section \<open>Example runs\<close>

lemmas example_defs =
  exampleEnv_def exampleOptions_def emptyWorld_def okResponse_def createdWorld_def
  downloadedWorld_def preparedWorld_def extractedWorld_def tarUrl_def zipUrl_def

lemmas run_defs =
  checkCache_def cacheDirOf_def forceDownloadOf_def ensureDir_def existsSync_def mkdirSync_def
  emit_def fetchArchive_def archiveName_def basename_def pipeline_def render_def
  extractArchive_def extractDispatch_def endsWith_def tarExtract_def Let_def

lemma example_checkCache:
  "checkCache exampleEnv url exampleOptions emptyWorld
     = (Inr ([''cache''], ''5d41'', [''cache'', ''5d41.json'']), createdWorld)"
  by (simp add: run_defs example_defs)

lemma example_fetch_tar:
  "fetchArchive exampleEnv tarUrl [''cache''] createdWorld
     = (Inr [''cache'', ''firefox.tar.gz''], downloadedWorld tarUrl ''firefox.tar.gz'')"
  by (simp add: run_defs example_defs)

lemma example_fetch_zip:
  "fetchArchive exampleEnv zipUrl [''cache''] createdWorld
     = (Inr [''cache'', ''firefox.zip''], downloadedWorld zipUrl ''firefox.zip'')"
  by (simp add: run_defs example_defs)

lemma example_extract_tar:
  "extractArchive exampleEnv [''cache'', ''firefox.tar.gz''] [''cache''] ''5d41''
       (downloadedWorld tarUrl ''firefox.tar.gz'')
     = (Inr [''cache'', ''firefox-5d41''], extractedWorld tarUrl ''firefox.tar.gz'')"
  by (simp add: run_defs example_defs)

lemma example_prepare_zip:
  "ensureDir (join [''cache''] [''firefox-'' @ ''5d41'']) (downloadedWorld zipUrl ''firefox.zip'')
     = (Inr (), preparedWorld zipUrl ''firefox.zip'')"
  by (simp add: run_defs example_defs)

lemmas dmg_defs =
  dmgEnv_def emptyWorld_def mountedWorld_def listedWorld_def detachedWorld_def execAsync_def
  emit_def attachCommand_def detachCommand_def quote_def render_def


section \<open>Properties of downloadFirefox\<close>

text \<open>
  Claim C1. With \<open>forceDownload\<close> not set, a cache file that can be read and parsed, and
  a recorded \<open>binaryPath\<close> that \<open>existsSync\<close> finds, as the operating system resolves the
  string, \<open>downloadFirefox\<close> returns the parsed record as it is; the world it leaves is
  the world it found plus one line of log: no directory is made, nothing is fetched,
  extracted, run or written.
\<close>

theorem cache_hit:
  assumes force: "forceDownload_opt opts \<noteq> Some True"
    and cfile: "cacheFile = join (cacheDirOf e opts) [md5hex e url @ ''.json'']"
    and read: "readFileSync (fs w) cacheFile = Inr content"
    and parse: "JSON_parse e content = Inr cached"
    and bprop: "getBinaryPath cached = Inr (Some (JString binaryPath))"
    and bin: "existsSyncRaw e (fs w) binaryPath"
  shows "downloadFirefox e url opts w =
           (Inr cached, emit (Log (''Using cached Firefox binary from: '' @ binaryPath)) w)"
proof -
  have nf: "\<not> forceDownloadOf opts"
    using force by (cases "forceDownload_opt opts") (auto simp: forceDownloadOf_def)
  have ex: "existsSync (fs w) cacheFile"
    using read by (rule readFileSync_exists)
  have "existsSync (fs w) (cacheDirOf e opts)"
    using ex unfolding cfile join_json by (rule existsSync_parent)
  then have dir: "ensureDir (cacheDirOf e opts) w = (Inr (), w)"
    by (rule ensureDir_exists)
  have rc: "readCache e cacheFile w =
          (Some cached, emit (Log (''Using cached Firefox binary from: '' @ binaryPath)) w)"
    using read parse bprop bin by (simp add: readCache_def)
  have cfile': "cacheDirOf e opts @ [md5hex e url @ ''.json''] = cacheFile"
    unfolding cfile join_json ..
  have "checkCache e url opts w =
          (Inl (Inr cached), emit (Log (''Using cached Firefox binary from: '' @ binaryPath)) w)"
    using nf ex rc by (simp add: checkCache_def dir Let_def join_json cfile' del: join.simps)
  then show ?thesis by (simp add: downloadFirefox_def)
qed

theorem cache_hit_witness:
  "forceDownload_opt exampleOptions \<noteq> Some True
   \<and> join (cacheDirOf exampleEnv exampleOptions) [md5hex exampleEnv tarUrl @ ''.json'']
       = [''cache'', ''5d41.json'']
   \<and> readFileSync (fs cachedWorld) [''cache'', ''5d41.json''] = Inr ''{cached}''
   \<and> JSON_parse exampleEnv ''{cached}'' = Inr cachedRecord
   \<and> getBinaryPath cachedRecord = Inr (Some (JString ''/opt/firefox/firefox''))
   \<and> existsSyncRaw exampleEnv (fs cachedWorld) ''/opt/firefox/firefox''
   \<and> downloadFirefox exampleEnv tarUrl exampleOptions cachedWorld
       = (Inr cachedRecord,
          emit (Log ''Using cached Firefox binary from: /opt/firefox/firefox'') cachedWorld)"
proof -
  have h1: "forceDownload_opt exampleOptions \<noteq> Some True"
    by (simp add: exampleOptions_def)
  have h2: "[''cache'', ''5d41.json''] =
            join (cacheDirOf exampleEnv exampleOptions) [md5hex exampleEnv tarUrl @ ''.json'']"
    by (simp add: cacheDirOf_def exampleEnv_def exampleOptions_def)
  have h3: "readFileSync (fs cachedWorld) [''cache'', ''5d41.json''] = Inr ''{cached}''"
    by (simp add: readFileSync_def cachedWorld_def)
  have h4: "JSON_parse exampleEnv ''{cached}'' = Inr cachedRecord"
    by (simp add: exampleEnv_def)
  have h5: "getBinaryPath cachedRecord = Inr (Some (JString ''/opt/firefox/firefox''))"
    by (simp add: cachedRecord_def)
  have h6: "existsSyncRaw exampleEnv (fs cachedWorld) ''/opt/firefox/firefox''"
    by (simp add: existsSyncRaw_def exampleEnv_def cachedWorld_def)
  have run: "downloadFirefox exampleEnv tarUrl exampleOptions cachedWorld
       = (Inr cachedRecord,
          emit (Log ''Using cached Firefox binary from: /opt/firefox/firefox'') cachedWorld)"
    using cache_hit [OF h1 h2 h3 h4 h5 h6] by simp
  show ?thesis
    by (intro conjI) (rule h1 h2 [symmetric] h3 h4 h5 h6 run)+
qed



text \<open>
  Claim C3. When the run gets past the cache check and the response to the HTTP GET is not
  \<open>ok\<close>, \<open>downloadFirefox\<close> throws the error of line 59 around the error of line 53;
  the file system is the one the cache check left, the cache file is what it was before
  the call, and no event of the run writes it.
\<close>

theorem http_error_no_cache_write:
  assumes miss: "checkCache e url opts w = (Inr (cacheDir, urlHash, cacheFile), w1)"
    and resp: "fetch e url = Inr r"
    and bad: "\<not> ok r"
  shows "downloadFirefox e url opts w =
           (Inl (''Failed to download Firefox from '' @ url @ '': ''
                   @ ''Failed to download Firefox: '' @ showNat (status r) @ '' '' @ statusText r),
            emit (HttpGet url) (emit (Log (''Downloading Firefox from: '' @ url)) w1))
         \<and> lookup (fs (snd (downloadFirefox e url opts w))) cacheFile = lookup (fs w) cacheFile
         \<and> (\<exists>evs. trace (snd (downloadFirefox e url opts w)) = trace w @ evs
                \<and> (\<forall>content. WriteFile cacheFile content \<notin> set evs)
                \<and> StreamTo cacheFile \<notin> set evs)"
proof -
  let ?w' = "emit (HttpGet url) (emit (Log (''Downloading Firefox from: '' @ url)) w1)"
  have f: "fetchArchive e url cacheDir w1 =
           (Inl (''Failed to download Firefox from '' @ url @ '': ''
                   @ ''Failed to download Firefox: '' @ showNat (status r) @ '' '' @ statusText r), ?w')"
    using resp bad by (simp add: fetchArchive_def Let_def del: join.simps showNat.simps)
  have run: "downloadFirefox e url opts w =
           (Inl (''Failed to download Firefox from '' @ url @ '': ''
                   @ ''Failed to download Firefox: '' @ showNat (status r) @ '' '' @ statusText r), ?w')"
    using miss f by (simp add: downloadFirefox_def del: showNat.simps)
  have unchanged: "lookup (fs ?w') cacheFile = lookup (fs w) cacheFile"
    using checkCache_miss(2) [OF miss] by (simp add: emit_simps)
  from checkCache_miss(3) [OF miss] obtain evs
    where evs: "trace w1 = trace w @ evs" "\<forall>ev\<in>set evs. (\<exists>p. ev = Mkdir p) \<or> (\<exists>m. ev = Warn m)"
    by blast
  let ?evs = "evs @ [Log (''Downloading Firefox from: '' @ url), HttpGet url]"
  have "trace ?w' = trace w @ ?evs" using evs(1) by (simp add: emit_simps)
  moreover have "\<forall>content. WriteFile cacheFile content \<notin> set ?evs" using evs(2) by auto
  moreover have "StreamTo cacheFile \<notin> set ?evs" using evs(2) by auto
  ultimately have "\<exists>evs. trace ?w' = trace w @ evs
                \<and> (\<forall>content. WriteFile cacheFile content \<notin> set evs)
                \<and> StreamTo cacheFile \<notin> set evs" by blast
  with run unchanged show ?thesis by (simp only: snd_conv) 
qed

theorem http_error_no_cache_write_witness:
  "checkCache exampleEnv ''https://example.org/missing.tar.gz'' exampleOptions emptyWorld
     = (Inr ([''cache''], ''5d41'', [''cache'', ''5d41.json'']),
        \<lparr>fs = Dir [(''cache'', Dir [])], trace = [Mkdir [''cache'']]\<rparr>)
   \<and> fetch exampleEnv ''https://example.org/missing.tar.gz'' = Inr notFoundResponse
   \<and> \<not> ok notFoundResponse
   \<and> downloadFirefox exampleEnv ''https://example.org/missing.tar.gz'' exampleOptions emptyWorld
     = (Inl ''Failed to download Firefox from https://example.org/missing.tar.gz: Failed to download Firefox: 404 Not Found'',
        \<lparr>fs = Dir [(''cache'', Dir [])],
         trace = [Mkdir [''cache''],
                  Log ''Downloading Firefox from: https://example.org/missing.tar.gz'',
                  HttpGet ''https://example.org/missing.tar.gz'']\<rparr>)
   \<and> lookup (fs (snd (downloadFirefox exampleEnv ''https://example.org/missing.tar.gz''
                         exampleOptions emptyWorld))) [''cache'', ''5d41.json'']
     = None"
proof -
  have h1: "checkCache exampleEnv ''https://example.org/missing.tar.gz'' exampleOptions emptyWorld
     = (Inr ([''cache''], ''5d41'', [''cache'', ''5d41.json'']),
        \<lparr>fs = Dir [(''cache'', Dir [])], trace = [Mkdir [''cache'']]\<rparr>)"
    by (simp add: checkCache_def cacheDirOf_def forceDownloadOf_def exampleOptions_def
        emptyWorld_def ensureDir_def existsSync_def mkdirSync_def emit_def exampleEnv_def Let_def)
  have h2: "fetch exampleEnv ''https://example.org/missing.tar.gz'' = Inr notFoundResponse"
    by (simp add: exampleEnv_def)
  have h3: "\<not> ok notFoundResponse"
    by (simp add: notFoundResponse_def)
  have s: "showNat (status notFoundResponse) = ''404''"
    by code_simp
  have t: "statusText notFoundResponse = ''Not Found''"
    by (simp add: notFoundResponse_def)
  have e: "lookup (fs emptyWorld) [''cache'', ''5d41.json''] = None"
    by (simp add: emptyWorld_def)
  from http_error_no_cache_write [OF h1 h2 h3] h1 h2 h3
  show ?thesis by (simp add: s t e emit_def del: showNat.simps)
qed

text \<open>
  Claim C4. When no directory of the extraction tree matches the rules of the platform,
  the locator returns \<open>null\<close>; and a run of \<open>downloadFirefox\<close> that reaches the locator
  with such a tree at the extraction directory throws the error of line 95, leaving the
  world as the extraction left it: no result is returned and no cache file is written.
\<close>

theorem no_match_binary_not_found:
  assumes nomatch: "\<forall>x\<in>set (allDirs extractDir tree).
                      matchRules (process_platform e) (fst x) (snd x) = None"
  shows "findFirefoxBinary (process_platform e) extractDir tree = None
         \<and> (checkCache e url opts w = (Inr (cacheDir, urlHash, cacheFile), w1) \<longrightarrow>
            fetchArchive e url cacheDir w1 = (Inr downloadPath, w2) \<longrightarrow>
            extractArchive e downloadPath cacheDir urlHash w2 = (Inr extractDir, w3) \<longrightarrow>
            lookup (fs w3) extractDir = Some tree \<longrightarrow>
            downloadFirefox e url opts w =
              (Inl (''Could not find Firefox binary in extracted archive at '' @ render extractDir),
               w3))"
proof -
  have none: "findFirefoxBinary (process_platform e) extractDir tree = None"
    using nomatch by (simp only: findFirefoxBinary_None_iff)
  have "downloadFirefox e url opts w =
              (Inl (''Could not find Firefox binary in extracted archive at '' @ render extractDir),
               w3)"
    if "checkCache e url opts w = (Inr (cacheDir, urlHash, cacheFile), w1)"
      and "fetchArchive e url cacheDir w1 = (Inr downloadPath, w2)"
      and "extractArchive e downloadPath cacheDir urlHash w2 = (Inr extractDir, w3)"
      and "lookup (fs w3) extractDir = Some tree"
  proof -
    have "findFirefoxBinaryAt (process_platform e) (fs w3) extractDir = None"
      using that(4) none by (simp add: findFirefoxBinaryAt_def)
    then have "locateAndCache e cacheFile extractDir w3 =
              (Inl (''Could not find Firefox binary in extracted archive at '' @ render extractDir),
               w3)"
      by (simp add: locateAndCache_def)
    with that(1-3) show ?thesis by (simp add: downloadFirefox_def)
  qed
  with none show ?thesis by blast
qed

theorem no_match_binary_not_found_witness:
  "allDirs [''cache'', ''firefox-5d41''] (Dir [(''README'', File ''text'')])
     = [([''cache'', ''firefox-5d41''], Dir [(''README'', File ''text'')])]
   \<and> matchRules (process_platform exampleEnv) [''cache'', ''firefox-5d41'']
         (Dir [(''README'', File ''text'')]) = None
   \<and> checkCache exampleEnv tarUrl exampleOptions emptyWorld
       = (Inr ([''cache''], ''5d41'', [''cache'', ''5d41.json'']), createdWorld)
   \<and> fetchArchive exampleEnv tarUrl [''cache''] createdWorld
       = (Inr [''cache'', ''firefox.tar.gz''], downloadedWorld tarUrl ''firefox.tar.gz'')
   \<and> extractArchive exampleEnv [''cache'', ''firefox.tar.gz''] [''cache''] ''5d41''
         (downloadedWorld tarUrl ''firefox.tar.gz'')
       = (Inr [''cache'', ''firefox-5d41''], extractedWorld tarUrl ''firefox.tar.gz'')
   \<and> lookup (fs (extractedWorld tarUrl ''firefox.tar.gz'')) [''cache'', ''firefox-5d41'']
       = Some (Dir [(''README'', File ''text'')])
   \<and> findFirefoxBinary (process_platform exampleEnv) [''cache'', ''firefox-5d41'']
         (Dir [(''README'', File ''text'')]) = None
   \<and> downloadFirefox exampleEnv tarUrl exampleOptions emptyWorld
       = (Inl ''Could not find Firefox binary in extracted archive at /cache/firefox-5d41'',
          extractedWorld tarUrl ''firefox.tar.gz'')"
proof -
  let ?d = "[''cache'', ''firefox-5d41'']"
  let ?t = "Dir [(''README'', File ''text'')]"
  have dirs: "allDirs ?d ?t = [(?d, ?t)]" by simp
  have rules: "matchRules (process_platform exampleEnv) ?d ?t = None"
    by (simp add: matchRules_def exampleEnv_def checkLinuxPaths_def linuxPaths_def existsSync_def)
  have h: "\<forall>x\<in>set (allDirs ?d ?t). matchRules (process_platform exampleEnv) (fst x) (snd x) = None"
    unfolding dirs using rules by simp
  have l: "lookup (fs (extractedWorld tarUrl ''firefox.tar.gz'')) ?d = Some ?t"
    by (simp add: extractedWorld_def)
  have r: "render ?d = ''/cache/firefox-5d41''"
    by (simp add: render_def)
  note T = no_match_binary_not_found [OF h, of tarUrl exampleOptions emptyWorld "[''cache'']"
      "''5d41''" "[''cache'', ''5d41.json'']" createdWorld "[''cache'', ''firefox.tar.gz'']"
      "downloadedWorld tarUrl ''firefox.tar.gz''" "extractedWorld tarUrl ''firefox.tar.gz''"]
  have none: "findFirefoxBinary (process_platform exampleEnv) ?d ?t = None"
    using T by (rule conjunct1)
  have "downloadFirefox exampleEnv tarUrl exampleOptions emptyWorld
       = (Inl (''Could not find Firefox binary in extracted archive at '' @ render ?d),
          extractedWorld tarUrl ''firefox.tar.gz'')"
    using T example_checkCache [of tarUrl] example_fetch_tar example_extract_tar l by blast
  then have run: "downloadFirefox exampleEnv tarUrl exampleOptions emptyWorld
       = (Inl ''Could not find Firefox binary in extracted archive at /cache/firefox-5d41'',
          extractedWorld tarUrl ''firefox.tar.gz'')"
    by (simp add: r)
  show ?thesis
    by (intro conjI)
      (rule dirs rules example_checkCache example_fetch_tar example_extract_tar l none run)+
qed

text \<open>
  Claim C6. When the path of the downloaded file ends in none of \<open>.tar.bz2\<close>, \<open>.tar.gz\<close>
  and \<open>.dmg\<close>, the dispatch throws the error of line 85 and leaves the world untouched;
  \<open>downloadFirefox\<close> passes it on inside the error of line 88.
\<close>

theorem unsupported_format:
  assumes "\<not> endsWith (render downloadPath) ''.tar.bz2''"
    and "\<not> endsWith (render downloadPath) ''.tar.gz''"
    and "\<not> endsWith (render downloadPath) ''.dmg''"
  shows "extractDispatch e downloadPath extractDir w =
           (Inl (''Unsupported archive format: '' @ render downloadPath), w)
         \<and> (checkCache e url opts w0 = (Inr (cacheDir, urlHash, cacheFile), w1) \<longrightarrow>
            fetchArchive e url cacheDir w1 = (Inr downloadPath, w2) \<longrightarrow>
            ensureDir (join cacheDir [''firefox-'' @ urlHash]) w2 = (Inr (), w3) \<longrightarrow>
            downloadFirefox e url opts w0 =
              (Inl (''Failed to extract Firefox archive: ''
                      @ ''Unsupported archive format: '' @ render downloadPath),
               emit (Log (''Extracting to: '' @ render (join cacheDir [''firefox-'' @ urlHash]))) w3))"
proof -
  have d: "extractDispatch e downloadPath x v =
           (Inl (''Unsupported archive format: '' @ render downloadPath), v)" for x v
    using assms by (simp add: extractDispatch_def)
  have "downloadFirefox e url opts w0 =
              (Inl (''Failed to extract Firefox archive: ''
                      @ ''Unsupported archive format: '' @ render downloadPath),
               emit (Log (''Extracting to: '' @ render (join cacheDir [''firefox-'' @ urlHash]))) w3)"
    if "checkCache e url opts w0 = (Inr (cacheDir, urlHash, cacheFile), w1)"
      and "fetchArchive e url cacheDir w1 = (Inr downloadPath, w2)"
      and "ensureDir (join cacheDir [''firefox-'' @ urlHash]) w2 = (Inr (), w3)"
  proof -
    have "extractArchive e downloadPath cacheDir urlHash w2 =
            (Inl (''Failed to extract Firefox archive: ''
                      @ ''Unsupported archive format: '' @ render downloadPath),
               emit (Log (''Extracting to: '' @ render (join cacheDir [''firefox-'' @ urlHash]))) w3)"
      using that(3) by (simp add: extractArchive_def Let_def d del: join.simps)
    with that(1,2) show ?thesis by (simp add: downloadFirefox_def del: join.simps)
  qed
  with d show ?thesis by blast
qed

theorem unsupported_format_witness:
  "\<not> endsWith (render [''cache'', ''firefox.zip'']) ''.tar.bz2''
   \<and> \<not> endsWith (render [''cache'', ''firefox.zip'']) ''.tar.gz''
   \<and> \<not> endsWith (render [''cache'', ''firefox.zip'']) ''.dmg''
   \<and> checkCache exampleEnv zipUrl exampleOptions emptyWorld
       = (Inr ([''cache''], ''5d41'', [''cache'', ''5d41.json'']), createdWorld)
   \<and> fetchArchive exampleEnv zipUrl [''cache''] createdWorld
       = (Inr [''cache'', ''firefox.zip''], downloadedWorld zipUrl ''firefox.zip'')
   \<and> ensureDir (join [''cache''] [''firefox-'' @ ''5d41'']) (downloadedWorld zipUrl ''firefox.zip'')
       = (Inr (), preparedWorld zipUrl ''firefox.zip'')
   \<and> extractDispatch exampleEnv [''cache'', ''firefox.zip''] [''cache'', ''firefox-5d41'']
         (preparedWorld zipUrl ''firefox.zip'')
       = (Inl ''Unsupported archive format: /cache/firefox.zip'', preparedWorld zipUrl ''firefox.zip'')
   \<and> downloadFirefox exampleEnv zipUrl exampleOptions emptyWorld
       = (Inl ''Failed to extract Firefox archive: Unsupported archive format: /cache/firefox.zip'',
          emit (Log ''Extracting to: /cache/firefox-5d41'') (preparedWorld zipUrl ''firefox.zip''))"
proof -
  let ?p = "[''cache'', ''firefox.zip'']"
  have h1: "\<not> endsWith (render ?p) ''.tar.bz2''" by (simp add: endsWith_def render_def)
  have h2: "\<not> endsWith (render ?p) ''.tar.gz''" by (simp add: endsWith_def render_def)
  have h3: "\<not> endsWith (render ?p) ''.dmg''" by (simp add: endsWith_def render_def)
  have r: "render ?p = ''/cache/firefox.zip''" by (simp add: render_def)
  have d: "render (join [''cache''] [''firefox-5d41'']) = ''/cache/firefox-5d41''"
    by (simp add: render_def)
  note T = unsupported_format [OF h1 h2 h3, of exampleEnv "[''cache'', ''firefox-5d41'']"
      "preparedWorld zipUrl ''firefox.zip''" zipUrl exampleOptions emptyWorld "[''cache'']" "''5d41''"
      "[''cache'', ''5d41.json'']" createdWorld "downloadedWorld zipUrl ''firefox.zip''"
      "preparedWorld zipUrl ''firefox.zip''"]
  have "extractDispatch exampleEnv ?p [''cache'', ''firefox-5d41''] (preparedWorld zipUrl ''firefox.zip'')
       = (Inl (''Unsupported archive format: '' @ render ?p), preparedWorld zipUrl ''firefox.zip'')"
    using T by (rule conjunct1)
  then have disp: "extractDispatch exampleEnv ?p [''cache'', ''firefox-5d41'']
         (preparedWorld zipUrl ''firefox.zip'')
       = (Inl ''Unsupported archive format: /cache/firefox.zip'', preparedWorld zipUrl ''firefox.zip'')"
    by (simp add: r)
  have "downloadFirefox exampleEnv zipUrl exampleOptions emptyWorld
       = (Inl (''Failed to extract Firefox archive: ''
                      @ ''Unsupported archive format: '' @ render ?p),
               emit (Log (''Extracting to: '' @ render (join [''cache''] [''firefox-'' @ ''5d41''])))
                 (preparedWorld zipUrl ''firefox.zip''))"
    using T example_checkCache [of zipUrl] example_fetch_zip example_prepare_zip by blast
  then have run: "downloadFirefox exampleEnv zipUrl exampleOptions emptyWorld
       = (Inl ''Failed to extract Firefox archive: Unsupported archive format: /cache/firefox.zip'',
          emit (Log ''Extracting to: /cache/firefox-5d41'') (preparedWorld zipUrl ''firefox.zip''))"
    by (simp add: r d del: join.simps)
  show ?thesis
    by (intro conjI)
      (rule h1 h2 h3 example_checkCache example_fetch_zip example_prepare_zip disp run)+
qed

text \<open>
  Claim C10. For a path ending in \<open>.tar.bz2\<close> and for a path ending in \<open>.tar.gz\<close> the
  dispatch is the same call of \<open>tar.extract\<close>, with the downloaded file as \<open>file\<close> and the
  extraction directory as \<open>cwd\<close>.
\<close>

theorem tar_formats_same_action:
  "(endsWith (render downloadPath) ''.tar.bz2'' \<longrightarrow>
      extractDispatch e downloadPath extractDir w = tarExtract e downloadPath extractDir w)
   \<and> (endsWith (render downloadPath) ''.tar.gz'' \<longrightarrow>
      extractDispatch e downloadPath extractDir w = tarExtract e downloadPath extractDir w)"
  by (simp add: extractDispatch_def)

theorem tar_formats_same_action_witness:
  "endsWith (render [''cache'', ''firefox.tar.bz2'']) ''.tar.bz2''
   \<and> extractDispatch exampleEnv [''cache'', ''firefox.tar.bz2''] [''cache'', ''firefox-5d41'']
         (preparedWorld tarUrl ''firefox.tar.bz2'')
       = tarExtract exampleEnv [''cache'', ''firefox.tar.bz2''] [''cache'', ''firefox-5d41'']
           (preparedWorld tarUrl ''firefox.tar.bz2'')
   \<and> endsWith (render [''cache'', ''firefox.tar.gz'']) ''.tar.gz''
   \<and> extractDispatch exampleEnv [''cache'', ''firefox.tar.gz''] [''cache'', ''firefox-5d41'']
         (preparedWorld tarUrl ''firefox.tar.gz'')
       = tarExtract exampleEnv [''cache'', ''firefox.tar.gz''] [''cache'', ''firefox-5d41'']
           (preparedWorld tarUrl ''firefox.tar.gz'')"
proof -
  have h1: "endsWith (render [''cache'', ''firefox.tar.bz2'']) ''.tar.bz2''"
    by (simp add: endsWith_def render_def)
  have h2: "endsWith (render [''cache'', ''firefox.tar.gz'']) ''.tar.gz''"
    by (simp add: endsWith_def render_def)
  from tar_formats_same_action [of "[''cache'', ''firefox.tar.bz2'']" exampleEnv
      "[''cache'', ''firefox-5d41'']" "preparedWorld tarUrl ''firefox.tar.bz2''"]
    tar_formats_same_action [of "[''cache'', ''firefox.tar.gz'']" exampleEnv
      "[''cache'', ''firefox-5d41'']" "preparedWorld tarUrl ''firefox.tar.gz''"]
    h1 h2
  show ?thesis by blast
qed

section \<open>Properties of extractDmg\<close>

text \<open>
  Claim C7. Once the image is mounted and the mount point is read from the output of
  \<open>hdiutil\<close>, whatever the body of the \<open>try\<close> does (\<open>r\<close> is its outcome, an error or
  not), \<open>hdiutil detach\<close> is run on the mount point after it, and \<open>extractDmg\<close> ends with
  the outcome \<open>r\<close> of the body; when the unmount fails, its error is logged as a warning
  and goes no further.
\<close>

theorem unmount_on_every_exit:
  assumes mount: "execAsync e (attachCommand dmgPath) (emit (Log ''Mounting DMG...'') w)
                    = (Inr attachOutput, w1)"
    and point: "matchVolumes attachOutput = Some mountMatch"
    and copy: "copyAppBundle e (trim mountMatch) extractDir
                 (emit (Log (''Mounted at: '' @ trim mountMatch)) w1) = (r, w2)"
    and detach: "execAsync e (detachCommand (trim mountMatch)) (emit (Log ''Unmounting DMG...'') w2)
                   = (d, w3)"
  shows "extractDmg e dmgPath extractDir w =
           (r, emit (case d of
                       Inl m \<Rightarrow> Warn (''Warning: Failed to unmount DMG: '' @ m)
                     | Inr out \<Rightarrow> Log ''DMG unmounted'') w3)
         \<and> trace w3 = trace w2 @ [Log ''Unmounting DMG...'', Exec (detachCommand (trim mountMatch))]"
proof -
  have u: "unmount e (trim mountMatch) w2 =
           emit (case d of
                       Inl m \<Rightarrow> Warn (''Warning: Failed to unmount DMG: '' @ m)
                     | Inr out \<Rightarrow> Log ''DMG unmounted'') w3"
    using detach by (cases d) (simp_all add: unmount_def)
  have "extractDmg e dmgPath extractDir w = (r, unmount e (trim mountMatch) w2)"
    using mount point copy by (simp add: extractDmg_def Let_def)
  moreover have "trace w3 = trace w2 @ [Log ''Unmounting DMG...'', Exec (detachCommand (trim mountMatch))]"
    using execAsync_trace [OF detach] by (simp add: emit_simps)
  ultimately show ?thesis using u by simp
qed

theorem unmount_on_every_exit_witness:
  "execAsync dmgEnv (attachCommand [''cache'', ''Firefox.dmg''])
       (emit (Log ''Mounting DMG...'') emptyWorld)
     = (Inr ''/dev/disk4s2 Apple_HFS /Volumes/Firefox'', mountedWorld)
   \<and> matchVolumes ''/dev/disk4s2 Apple_HFS /Volumes/Firefox'' = Some ''/Volumes/Firefox''
   \<and> trim ''/Volumes/Firefox'' = ''/Volumes/Firefox''
   \<and> copyAppBundle dmgEnv ''/Volumes/Firefox'' [''cache'', ''firefox-5d41'']
         (emit (Log ''Mounted at: /Volumes/Firefox'') mountedWorld)
       = (Inl ''resource busy'', listedWorld)
   \<and> execAsync dmgEnv (detachCommand ''/Volumes/Firefox'')
         (emit (Log ''Unmounting DMG...'') listedWorld)
       = (Inl ''resource busy'', detachedWorld)
   \<and> extractDmg dmgEnv [''cache'', ''Firefox.dmg''] [''cache'', ''firefox-5d41''] emptyWorld
       = (Inl ''resource busy'',
          emit (Warn ''Warning: Failed to unmount DMG: resource busy'') detachedWorld)
   \<and> trace detachedWorld
       = trace listedWorld @ [Log ''Unmounting DMG...'', Exec (detachCommand ''/Volumes/Firefox'')]"
proof -
  have h1: "execAsync dmgEnv (attachCommand [''cache'', ''Firefox.dmg''])
       (emit (Log ''Mounting DMG...'') emptyWorld)
     = (Inr ''/dev/disk4s2 Apple_HFS /Volumes/Firefox'', mountedWorld)"
    by (simp add: dmg_defs)
  have h2: "matchVolumes ''/dev/disk4s2 Apple_HFS /Volumes/Firefox'' = Some ''/Volumes/Firefox''"
    by (simp add: isLineTerminator_def)
  have t: "trim ''/Volumes/Firefox'' = ''/Volumes/Firefox''"
    by (simp add: trim_def isSpace_def)
  have h3: "copyAppBundle dmgEnv ''/Volumes/Firefox'' [''cache'', ''firefox-5d41'']
         (emit (Log ''Mounted at: /Volumes/Firefox'') mountedWorld)
       = (Inl ''resource busy'', listedWorld)"
    by (simp add: copyAppBundle_def dmg_defs)
  have h4: "execAsync dmgEnv (detachCommand ''/Volumes/Firefox'')
         (emit (Log ''Unmounting DMG...'') listedWorld)
       = (Inl ''resource busy'', detachedWorld)"
    by (simp add: dmg_defs)
  note T = unmount_on_every_exit [of dmgEnv "[''cache'', ''Firefox.dmg'']" emptyWorld
      "''/dev/disk4s2 Apple_HFS /Volumes/Firefox''" mountedWorld "''/Volumes/Firefox''"
      "[''cache'', ''firefox-5d41'']" "Inl ''resource busy''" listedWorld
      "Inl ''resource busy''" detachedWorld]
  have T': "extractDmg dmgEnv [''cache'', ''Firefox.dmg''] [''cache'', ''firefox-5d41''] emptyWorld
       = (Inl ''resource busy'',
          emit (Warn ''Warning: Failed to unmount DMG: resource busy'') detachedWorld)
     \<and> trace detachedWorld
       = trace listedWorld @ [Log ''Unmounting DMG...'', Exec (detachCommand ''/Volumes/Firefox'')]"
    using T h1 h2 h3 h4 by (simp add: t)
  show ?thesis
    by (intro conjI) (rule h1 h2 t h3 h4 conjunct1 [OF T'] conjunct2 [OF T'])+
qed

end
